theory Spec2Isabelle
  imports Complex_Main "HOL-Library.Log_Nat"
begin

section \<open>JavaScript numbers and template strings\<close>

text \<open>
  A JavaScript number is modelled as a real number or one of the three special values.
  The operations \<open>js_add\<close>, \<open>js_mul\<close>, \<open>js_div\<close> are exact on finite values; the
  rounding of a result to a 64-bit double is the function \<open>fl\<close> below, and it is applied
  where the code goes on to take \<open>Math.floor\<close> of a quotient (\<open>SwipeGesture.build\<close>) and
  where a value can leave the range of the doubles (\<open>parseInt\<close>). The distinction between
  \<open>+0\<close> and \<open>-0\<close> is not modelled. Where the code divides by zero the model returns
  what IEEE arithmetic returns (an infinity or \<open>NaN\<close>), never HOL's \<open>x / 0 = 0\<close>.
\<close>

datatype jsnum = Num real | PInf | NInf | NaN

fun js_isNaN :: "jsnum \<Rightarrow> bool" where
  "js_isNaN NaN = True"
| "js_isNaN _ = False"

fun js_neg :: "jsnum \<Rightarrow> jsnum" where
  "js_neg (Num a) = Num (- a)"
| "js_neg PInf = NInf"
| "js_neg NInf = PInf"
| "js_neg NaN = NaN"

fun js_lt :: "jsnum \<Rightarrow> jsnum \<Rightarrow> bool" where
  "js_lt (Num a) (Num b) = (a < b)"
| "js_lt NaN _ = False"
| "js_lt _ NaN = False"
| "js_lt _ NInf = False"
| "js_lt PInf _ = False"
| "js_lt NInf _ = True"
| "js_lt _ PInf = True"

definition js_gt :: "jsnum \<Rightarrow> jsnum \<Rightarrow> bool" where
  "js_gt a b = js_lt b a"

fun js_add :: "jsnum \<Rightarrow> jsnum \<Rightarrow> jsnum" where
  "js_add (Num a) (Num b) = Num (a + b)"
| "js_add NaN _ = NaN"
| "js_add _ NaN = NaN"
| "js_add PInf NInf = NaN"
| "js_add NInf PInf = NaN"
| "js_add PInf _ = PInf"
| "js_add _ PInf = PInf"
| "js_add NInf _ = NInf"
| "js_add _ NInf = NInf"

definition js_sub :: "jsnum \<Rightarrow> jsnum \<Rightarrow> jsnum" where
  "js_sub a b = js_add a (js_neg b)"

text \<open>The sign of a number that is not \<open>NaN\<close>, and the infinity of a given sign
  (\<open>NaN\<close> for sign zero, as in \<open>Infinity * 0\<close> and \<open>0 / 0\<close>).\<close>

fun sign_of :: "jsnum \<Rightarrow> real" where
  "sign_of (Num a) = sgn a"
| "sign_of PInf = 1"
| "sign_of NInf = - 1"
| "sign_of NaN = 0"

definition inf_of_sign :: "real \<Rightarrow> jsnum" where
  "inf_of_sign s = (if s = 0 then NaN else if 0 < s then PInf else NInf)"

fun js_mul :: "jsnum \<Rightarrow> jsnum \<Rightarrow> jsnum" where
  "js_mul (Num a) (Num b) = Num (a * b)"
| "js_mul NaN _ = NaN"
| "js_mul _ NaN = NaN"
| "js_mul a b = inf_of_sign (sign_of a * sign_of b)"

fun js_div :: "jsnum \<Rightarrow> jsnum \<Rightarrow> jsnum" where
  "js_div (Num a) (Num b) = (if b = 0 then inf_of_sign (sgn a) else Num (a / b))"
| "js_div NaN _ = NaN"
| "js_div _ NaN = NaN"
| "js_div (Num a) _ = Num 0"
| "js_div a (Num b) = (if 0 \<le> b then a else js_neg a)"
| "js_div _ _ = NaN"

fun js_min :: "jsnum \<Rightarrow> jsnum \<Rightarrow> jsnum" where
  "js_min NaN _ = NaN"
| "js_min _ NaN = NaN"
| "js_min a b = (if js_lt b a then b else a)"

fun js_max :: "jsnum \<Rightarrow> jsnum \<Rightarrow> jsnum" where
  "js_max NaN _ = NaN"
| "js_max _ NaN = NaN"
| "js_max a b = (if js_lt a b then b else a)"

text \<open>\<open>Math.round\<close> rounds halves up; \<open>Math.floor\<close> rounds down.\<close>

fun js_round :: "jsnum \<Rightarrow> jsnum" where
  "js_round (Num a) = Num (of_int \<lfloor>a + 1 / 2\<rfloor>)"
| "js_round a = a"


text \<open>A number is truthy unless it is zero or \<open>NaN\<close>.\<close>

fun js_truthy :: "jsnum \<Rightarrow> bool" where
  "js_truthy (Num a) = (a \<noteq> 0)"
| "js_truthy NaN = False"
| "js_truthy _ = True"

text \<open>\<open>value || 1\<close> on an optional number (\<open>devicePixelRatio\<close>).\<close>

definition orOne :: "real option \<Rightarrow> real" where
  "orOne r = (case r of None \<Rightarrow> 1 | Some v \<Rightarrow> if v = 0 then 1 else v)"

subsection \<open>Rounding to a double\<close>

text \<open>
  \<open>fl x\<close> is the 64-bit double nearest to the real \<open>x\<close> (IEEE 754 binary64, round to
  nearest, ties to the even significand): with \<open>e\<close> the binary exponent of \<open>x\<close>, not
  below \<open>-1022\<close>, the doubles around \<open>x\<close> are the multiples of \<open>2 ^ (e - 52)\<close>, and a
  result of magnitude \<open>2 ^ 1024\<close> or more is an infinity. \<open>exponentOf x\<close> is the integer
  \<open>e\<close> with \<open>2 ^ e \<le> |x| < 2 ^ (e + 1)\<close>, computed from the bit length of the integer
  part of \<open>|x|\<close> or of \<open>1 / |x|\<close>.
\<close>

definition roundTiesEven :: "real \<Rightarrow> int" where
  "roundTiesEven y =
     (let f = \<lfloor>y\<rfloor>; r = y - of_int f
      in if r < 1 / 2 then f else if 1 / 2 < r then f + 1 else if even f then f else f + 1)"

definition exponentOf :: "real \<Rightarrow> int" where
  "exponentOf x =
     (if 1 \<le> \<bar>x\<bar> then bitlen \<lfloor>\<bar>x\<bar>\<rfloor> - 1 else - bitlen (\<lceil>1 / \<bar>x\<bar>\<rceil> - 1))"

definition fl :: "real \<Rightarrow> jsnum" where
  "fl x =
     (if x = 0 then Num 0
      else let e = max (exponentOf x) (- 1022);
               u = 2 powi (e - 52);
               r = of_int (roundTiesEven (x / u)) * u
           in if 2 powi 1024 \<le> \<bar>r\<bar> then (if 0 < x then PInf else NInf) else Num r)"


subsection \<open>\<open>parseInt(s, 10)\<close>\<close>

text \<open>
  The strings that \<open>parseInt\<close> reads are sequences of UTF-16 code units, as JavaScript
  strings are; a code unit is a natural number (below 65536 in a string of the program;
  the functions treat a larger number as one more ordinary character). \<open>units\<close> gives the
  code units of a text in ASCII.
\<close>

type_synonym jsstring = "nat list"

definition units :: "string \<Rightarrow> jsstring" where
  "units s = map of_char s"

text \<open>
  \<open>parseInt\<close> with radix 10: leading white space is skipped, one sign is read, then the
  longest run of decimal digits; no digit at all gives \<open>NaN\<close>, and otherwise the result is
  the number the digits denote, with the sign, as a double (an infinity when it is beyond
  the doubles). White space is what ECMAScript's \<open>StrWhiteSpaceChar\<close> is: tab, line feed,
  vertical tab, form feed, carriage return, space, no-break space (\<open>U+00A0\<close>), \<open>U+1680\<close>,
  \<open>U+2000\<close> to \<open>U+200A\<close>, the line and paragraph separators \<open>U+2028\<close> and \<open>U+2029\<close>,
  \<open>U+202F\<close>, \<open>U+205F\<close>, \<open>U+3000\<close> and the byte order mark \<open>U+FEFF\<close>.
\<close>

definition isWhiteSpace :: "nat \<Rightarrow> bool" where
  "isWhiteSpace u =
     (u \<in> set [0x09, 0x0A, 0x0B, 0x0C, 0x0D, 0x20, 0xA0, 0x1680, 0x2028, 0x2029, 0x202F,
               0x205F, 0x3000, 0xFEFF]
      \<or> (0x2000 \<le> u \<and> u \<le> 0x200A))"

definition isDigit :: "nat \<Rightarrow> bool" where
  "isDigit u = (48 \<le> u \<and> u \<le> 57)"

definition digitValue :: "nat \<Rightarrow> nat" where
  "digitValue u = u - 48"

definition digitsValue :: "jsstring \<Rightarrow> nat" where
  "digitsValue ds = foldl (\<lambda>acc u. 10 * acc + digitValue u) 0 ds"

text \<open>The sign characters are \<open>-\<close> (45) and \<open>+\<close> (43).\<close>

definition parseInt :: "jsstring \<Rightarrow> jsnum" where
  "parseInt s =
     (let s1 = dropWhile isWhiteSpace s;
          (sign, s2) = (case s1 of
                          [] \<Rightarrow> (1::real, s1)
                        | u # r \<Rightarrow> if u = 45 then (- 1, r)
                                   else if u = 43 then (1, r) else (1, s1));
          z = takeWhile isDigit s2
      in if z = [] then NaN else fl (sign * real (digitsValue z)))"

text \<open>\<open>s.endsWith(c)\<close> for a single character \<open>c\<close>; \<open>%\<close> is the code unit 37.\<close>

definition endsWith :: "jsstring \<Rightarrow> nat \<Rightarrow> bool" where
  "endsWith s u = (s \<noteq> [] \<and> last s = u)"

text \<open>\<open>s.match(pat)\<close> for a pattern without regular-expression operators: does
  \<open>pat\<close> occur in \<open>s\<close>?\<close>

fun str_match :: "string \<Rightarrow> string \<Rightarrow> bool" where
  "str_match pat [] = (pat = [])"
| "str_match pat (c # cs) = (take (length pat) (c # cs) = pat \<or> str_match pat cs)"

text \<open>\<open>xs.join(sep)\<close>.\<close>

fun join :: "'a list \<Rightarrow> 'a list list \<Rightarrow> 'a list" where
  "join sep [] = []"
| "join sep [x] = x"
| "join sep (x # y # ys) = x @ sep @ join sep (y # ys)"

section \<open>Actions, positions and errors\<close>

text \<open>A position value is a percentage string or a number; a position is the pair
  \<open>(x, y)\<close>. A swipe move is \<open>(x, y, t)\<close>.\<close>

datatype posval = PStr jsstring | PNum jsnum

type_synonym position = "posval \<times> posval"

type_synonym coords = "jsnum \<times> jsnum"

type_synonym move = "posval \<times> posval \<times> jsnum"

datatype action_type = Tap | Swipe | Keypress | FindElements | OtherType

datatype platform = Ios | Android

datatype shift = ShiftBool bool | ShiftNum nat

text \<open>
  One record serves both the public and the internal (wire) shape of an action; an
  absent, \<open>undefined\<close> or \<open>null\<close> property is \<open>None\<close>. The element type \<open>'e\<close> is
  left open: no function below looks inside an element except through the functions it
  is given.
\<close>

record 'e action =
  atype :: action_type
  element :: "'e option"
  position :: "position option"
  coordinates :: "coords option"
  localPosition :: "position option"
  duration :: "jsnum option"
  moves :: "move list"
  key :: "string option"
  character :: "string option"
  shiftKey :: "shift option"

text \<open>
  A message is a template literal before JavaScript renders it: literal text, an
  interpolated string of the caller, an interpolated number, an interpolated
  \<open>JSON.stringify\<close> of an element or an action.
\<close>

datatype 'e piece =
    Txt string
  | StrP jsstring
  | NumP jsnum
  | JsonElement "'e option"
  | JsonAction "'e action"

fun posPiece :: "posval \<Rightarrow> 'e piece" where
  "posPiece (PStr s) = StrP s"
| "posPiece (PNum n) = NumP n"

text \<open>The error classes of \<open>core/errors\<close>, with JavaScript's own \<open>Error\<close> and
  \<open>TypeError\<close>; \<open>ancestors\<close> lists a class and what it extends.\<close>

datatype err_class =
    JsError
  | JsTypeError
  | OperationalError
  | ActionError
  | ActionElementNotFoundError
  | ActionAmbiguousElementError
  | ActionInvalidArgumentError
  | ActionInternalError
  | TimeoutError
  | ActionTimeoutError
  | RecorderRequiredError

fun ancestors :: "err_class \<Rightarrow> err_class list" where
  "ancestors JsError = [JsError]"
| "ancestors JsTypeError = [JsTypeError, JsError]"
| "ancestors OperationalError = [OperationalError, JsError]"
| "ancestors ActionError = [ActionError, OperationalError, JsError]"
| "ancestors ActionElementNotFoundError =
     [ActionElementNotFoundError, ActionError, OperationalError, JsError]"
| "ancestors ActionAmbiguousElementError =
     [ActionAmbiguousElementError, ActionError, OperationalError, JsError]"
| "ancestors ActionInvalidArgumentError =
     [ActionInvalidArgumentError, ActionError, OperationalError, JsError]"
| "ancestors ActionInternalError =
     [ActionInternalError, ActionError, OperationalError, JsError]"
| "ancestors TimeoutError = [TimeoutError, OperationalError, JsError]"
| "ancestors ActionTimeoutError = [ActionTimeoutError, OperationalError, JsError]"
| "ancestors RecorderRequiredError = [RecorderRequiredError, OperationalError, JsError]"

record 'e error =
  cls :: err_class
  msg :: "'e piece list"
  err_errorId :: "string option"
  err_playbackId :: "nat option"

definition instanceof :: "'e error \<Rightarrow> err_class \<Rightarrow> bool" where
  "instanceof e c = (c \<in> set (ancestors (cls e)))"

text \<open>\<open>isOperational\<close> is set to \<open>true\<close> by the constructor of \<open>OperationalError\<close>, so it
  is \<open>true\<close> on exactly the instances of that class.\<close>

definition isOperational :: "'e error \<Rightarrow> bool" where
  "isOperational e = instanceof e OperationalError"

definition newError :: "err_class \<Rightarrow> 'e piece list \<Rightarrow> 'e error" where
  "newError c m = \<lparr>cls = c, msg = m, err_errorId = None, err_playbackId = None\<rparr>"

section \<open>The coordinate mapper (\<open>core/api/mapper.ts\<close>)\<close>

subsection \<open>\<open>parsePositionValue\<close> and the validator\<close>

definition parsePositionValue :: "posval \<Rightarrow> 'e error + jsnum" where
  "parsePositionValue v =
     (case v of
        PStr s \<Rightarrow>
          if endsWith s 37 then Inr (js_div (parseInt s) (Num 100))
          else Inl (newError JsError
                 [Txt ''Invalid position value: '', StrP s,
                  Txt ''. Must be a number between 0 and 1, or a string ending with %''])
      | PNum n \<Rightarrow> Inr n)"

text \<open>\<open>Validator.isValidNumber\<close>: the \<open>typeof\<close> test holds of every \<open>jsnum\<close>.\<close>

definition isValidNumber :: "jsnum \<Rightarrow> bool" where
  "isValidNumber v = (\<not> js_isNaN v)"

definition isCoordinatesWithinBounds :: "coords \<Rightarrow> jsnum \<times> jsnum \<Rightarrow> bool" where
  "isCoordinatesWithinBounds c b =
     (if js_lt (fst c) (Num 0) \<or> js_gt (fst c) (fst b) then False
      else if js_lt (snd c) (Num 0) \<or> js_gt (snd c) (snd b) then False
      else True)"

definition isPositionWithinBounds :: "position \<Rightarrow> 'e error + bool" where
  "isPositionWithinBounds p =
     (case parsePositionValue (fst p) of Inl e \<Rightarrow> Inl e | Inr x \<Rightarrow>
      case parsePositionValue (snd p) of Inl e \<Rightarrow> Inl e | Inr y \<Rightarrow>
        Inr (if js_lt x (Num 0) \<or> js_gt x (Num 1) then False
             else if js_lt y (Num 0) \<or> js_gt y (Num 1) then False
             else True))"

subsection \<open>The mapper's context and unit conversion\<close>

record screen_bounds =
  width :: real
  height :: real
  devicePixelRatio :: "real option"

definition pixelToDip :: "screen_bounds \<Rightarrow> jsnum \<Rightarrow> jsnum" where
  "pixelToDip sc v = js_div v (Num (orOne (devicePixelRatio sc)))"

definition dipToPixel :: "screen_bounds \<Rightarrow> jsnum \<Rightarrow> jsnum" where
  "dipToPixel sc v = js_mul v (Num (orOne (devicePixelRatio sc)))"

definition getCoordinates :: "position \<Rightarrow> jsnum \<times> jsnum \<Rightarrow> 'e error + coords" where
  "getCoordinates p b =
     (case parsePositionValue (fst p) of Inl e \<Rightarrow> Inl e | Inr x \<Rightarrow>
      case parsePositionValue (snd p) of Inl e \<Rightarrow> Inl e | Inr y \<Rightarrow>
        Inr (js_mul x (fst b), js_mul y (snd b)))"

definition getPosition :: "coords \<Rightarrow> jsnum \<times> jsnum \<Rightarrow> position" where
  "getPosition c b = (PNum (js_div (fst c) (fst b)), PNum (js_div (snd c) (snd b)))"

text \<open>The bounds the outbound mapper multiplies a position by: on Android the screen's
  size converted to pixels, less one; otherwise the screen's size less one.\<close>

definition outBounds :: "platform \<Rightarrow> screen_bounds \<Rightarrow> jsnum \<times> jsnum" where
  "outBounds pf sc =
     (if pf = Android
      then (js_sub (dipToPixel sc (Num (width sc))) (Num 1),
            js_sub (dipToPixel sc (Num (height sc))) (Num 1))
      else (Num (width sc - 1), Num (height sc - 1)))"

definition Internal_mapHardwareKey :: "string option \<Rightarrow> string option" where
  "Internal_mapHardwareKey v =
     (if v = Some ''HOME'' then Some ''home''
      else if v = Some ''VOLUME_UP'' then Some ''volumeUp''
      else if v = Some ''VOLUME_DOWN'' then Some ''volumeDown''
      else v)"

definition Public_mapHardwareKey :: "string option \<Rightarrow> string option" where
  "Public_mapHardwareKey v =
     (if v = Some ''home'' then Some ''HOME''
      else if v = Some ''volumeUp'' then Some ''VOLUME_UP''
      else if v = Some ''volumeDown'' then Some ''VOLUME_DOWN''
      else v)"

definition shiftTruthy :: "shift option \<Rightarrow> bool" where
  "shiftTruthy v = (case v of None \<Rightarrow> False | Some (ShiftBool b) \<Rightarrow> b | Some (ShiftNum n) \<Rightarrow> n \<noteq> 0)"

definition booleanToNumber :: "shift option \<Rightarrow> nat" where
  "booleanToNumber v = (if shiftTruthy v then 1 else 0)"

definition numberToBoolean :: "nat \<Rightarrow> bool" where
  "numberToBoolean n = (n = 1)"

subsection \<open>Outbound: \<open>InternalAPIMapper.mapAction\<close>\<close>

text \<open>The branch for an action with a \<open>position\<close>.\<close>

definition mapPosition :: "platform \<Rightarrow> screen_bounds \<Rightarrow> position \<Rightarrow> 'e error + coords" where
  "mapPosition pf sc p =
     (case parsePositionValue (fst p) of Inl e \<Rightarrow> Inl e | Inr x \<Rightarrow>
      case parsePositionValue (snd p) of Inl e \<Rightarrow> Inl e | Inr y \<Rightarrow>
        if \<not> isValidNumber x \<or> \<not> isValidNumber y
        then Inl (newError OperationalError
               [Txt ''Invalid position: ('', posPiece (fst p), Txt '', '', posPiece (snd p),
                Txt ''). Values must be a number or a percentage''])
        else
          case isPositionWithinBounds p of Inl e \<Rightarrow> Inl e | Inr inside \<Rightarrow>
            if \<not> inside
            then (case fst p of
                    PStr _ \<Rightarrow> Inl (newError JsError
                      [Txt ''Invalid position: ('', posPiece (fst p), Txt '', '',
                       posPiece (snd p), Txt '') must be within (0%, 0%) and (100%, 100%)''])
                  | PNum _ \<Rightarrow> Inl (newError JsError
                      [Txt ''Invalid position: ('', posPiece (fst p), Txt '', '',
                       posPiece (snd p), Txt '') must be within (0, 0) and (1, 1)'']))
            else getCoordinates p (outBounds pf sc))"

text \<open>The branch for an action with \<open>coordinates\<close> and no \<open>position\<close>.\<close>

definition mapCoordinates :: "platform \<Rightarrow> screen_bounds \<Rightarrow> coords \<Rightarrow> 'e error + coords" where
  "mapCoordinates pf sc c =
     (if \<not> isValidNumber (fst c) \<or> \<not> isValidNumber (snd c)
      then Inl (newError OperationalError
             [Txt ''Invalid coordinates: ('', NumP (fst c), Txt '', '', NumP (snd c),
              Txt ''). Values must be a number''])
      else if \<not> isCoordinatesWithinBounds c (Num (width sc - 1), Num (height sc - 1))
      then Inl (newError OperationalError
             [Txt ''Invalid coordinates: ('', NumP (fst c), Txt '', '', NumP (snd c),
              Txt '') exceed screen bounds ('', NumP (Num (width sc - 1)), Txt '', '',
              NumP (Num (height sc - 1)), Txt '')''])
      else if pf = Android then Inr (dipToPixel sc (fst c), dipToPixel sc (snd c))
      else Inr c)"

text \<open>The \<open>localPosition\<close>: parsed and checked to be numbers (the range check is
  commented out in the source); the centre of the element when there is an element and no
  \<open>localPosition\<close>.\<close>

definition mapLocalPosition ::
  "position option \<Rightarrow> 'e option \<Rightarrow> 'e error + position option" where
  "mapLocalPosition lp el =
     (case lp of
        Some p \<Rightarrow>
          (case parsePositionValue (fst p) of Inl e \<Rightarrow> Inl e | Inr x \<Rightarrow>
           case parsePositionValue (snd p) of Inl e \<Rightarrow> Inl e | Inr y \<Rightarrow>
             if \<not> isValidNumber x \<or> \<not> isValidNumber y
             then Inl (newError OperationalError
                    [Txt ''Invalid localPosition: ('', posPiece (fst p), Txt '', '',
                     posPiece (snd p), Txt ''). Values must be a number or a percentage''])
             else Inr (Some (PNum x, PNum y)))
      | None \<Rightarrow>
          (case el of Some _ \<Rightarrow> Inr (Some (PNum (Num (1 / 2)), PNum (Num (1 / 2))))
                    | None \<Rightarrow> Inr None))"

definition checkDuration :: "jsnum option \<Rightarrow> 'e error + unit" where
  "checkDuration d =
     (case d of
        Some v \<Rightarrow>
          if js_truthy v \<and> \<not> isValidNumber v
          then Inl (newError OperationalError
                 [Txt ''Invalid duration: '', NumP v, Txt ''. Value must be a number''])
          else Inr ()
      | None \<Rightarrow> Inr ())"

text \<open>\<open>action.moves.map(...)\<close> of the swipe case: each move through \<open>getCoordinates\<close>,
  which throws on a string that is no percentage.\<close>

fun mapMoves :: "jsnum \<times> jsnum \<Rightarrow> move list \<Rightarrow> 'e error + move list" where
  "mapMoves b [] = Inr []"
| "mapMoves b ((x, y, t) # ms) =
     (case getCoordinates (x, y) b of Inl e \<Rightarrow> Inl e | Inr c \<Rightarrow>
      case mapMoves b ms of Inl e \<Rightarrow> Inl e | Inr ms' \<Rightarrow>
        Inr ((PNum (fst c), PNum (snd c), t) # ms'))"

text \<open>
  \<open>mapAction\<close> of the outbound mapper, for a mapper with platform \<open>pf\<close> and screen
  \<open>sc\<close>. Its \<open>mapElement\<close> never throws and is passed as \<open>mapEl\<close>.
\<close>

definition Internal_mapAction ::
  "platform \<Rightarrow> screen_bounds \<Rightarrow> ('e \<Rightarrow> 'e) \<Rightarrow> 'e action \<Rightarrow> 'e error + 'e action" where
  "Internal_mapAction pf sc mapEl a =
     (let el = map_option mapEl (element a) in
      case (case position a of
              Some p \<Rightarrow> map_sum id Some (mapPosition pf sc p)
            | None \<Rightarrow>
                (case coordinates a of
                   Some c \<Rightarrow> map_sum id Some (mapCoordinates pf sc c)
                 | None \<Rightarrow> Inr None))
      of Inl e \<Rightarrow> Inl e | Inr co \<Rightarrow>
      case mapLocalPosition (localPosition a) el of Inl e \<Rightarrow> Inl e | Inr lp \<Rightarrow>
      case checkDuration (duration a) of Inl e \<Rightarrow> Inl e | Inr _ \<Rightarrow>
      case atype a of
        Tap \<Rightarrow>
          Inr (a\<lparr>position := None, element := el, localPosition := lp, coordinates := co\<rparr>)
      | Swipe \<Rightarrow>
          (case mapMoves (outBounds pf sc) (moves a) of Inl e \<Rightarrow> Inl e | Inr ms \<Rightarrow>
             Inr (a\<lparr>position := None, element := el, localPosition := lp,
                    coordinates := co, moves := ms\<rparr>))
      | Keypress \<Rightarrow>
          Inr (a\<lparr>key := Internal_mapHardwareKey (key a),
                 character := Internal_mapHardwareKey (character a),
                 shiftKey := (if pf = Ios then Some (ShiftNum (booleanToNumber (shiftKey a)))
                              else shiftKey a)\<rparr>)
      | FindElements \<Rightarrow> Inr (a\<lparr>element := el\<rparr>)
      | OtherType \<Rightarrow> Inr a)"

subsection \<open>Inbound: \<open>PublicAPIMapper.mapAction\<close>\<close>

text \<open>A number of the wire shape (the wire shape holds no percentage strings).\<close>

fun wireNum :: "posval \<Rightarrow> jsnum" where
  "wireNum (PNum n) = n"
| "wireNum (PStr s) = NaN"

text \<open>
  \<open>mapAction\<close> of the inbound mapper. Its \<open>mapElement\<close> is passed as \<open>mapEl\<close>, and
  \<open>boundsOf\<close> reads the \<open>bounds\<close> \<open>(x, y, width, height)\<close> of a mapped element. Every
  platform divides the pixel coordinates by the device pixel ratio, and the result is
  divided by the screen's size less one.
\<close>

definition Public_mapAction ::
  "platform \<Rightarrow> screen_bounds \<Rightarrow> ('e \<Rightarrow> 'e) \<Rightarrow>
   ('e \<Rightarrow> (jsnum \<times> jsnum \<times> jsnum \<times> jsnum) option) \<Rightarrow> 'e action \<Rightarrow> 'e action" where
  "Public_mapAction pf sc mapEl boundsOf a =
     (let sizeLessOne = (Num (width sc - 1), Num (height sc - 1));
          co = map_option (\<lambda>c. (pixelToDip sc (fst c), pixelToDip sc (snd c))) (coordinates a);
          pos = map_option (\<lambda>c. getPosition c sizeLessOne) co;
          el = map_option mapEl (element a);
          lp = (case (el, co) of
                  (Some e, Some c) \<Rightarrow>
                    (case boundsOf e of
                       Some (bx, by, bw, bh) \<Rightarrow>
                         Some (getPosition (js_sub (fst c) bx, js_sub (snd c) by) (bw, bh))
                     | None \<Rightarrow> localPosition a)
                | _ \<Rightarrow> localPosition a)
      in case atype a of
           Tap \<Rightarrow> a\<lparr>element := el, position := pos, localPosition := lp\<rparr>
         | Swipe \<Rightarrow>
             a\<lparr>element := el, position := pos, localPosition := lp,
               moves := map (\<lambda>(x, y, t).
                          (case getPosition (pixelToDip sc (wireNum x), pixelToDip sc (wireNum y))
                                  sizeLessOne
                           of (x', y') \<Rightarrow> (x', y', t))) (moves a)\<rparr>
         | Keypress \<Rightarrow>
             a\<lparr>key := Public_mapHardwareKey (key a),
               character := Public_mapHardwareKey (character a),
               shiftKey := Some (ShiftBool
                 (case shiftKey a of
                    Some (ShiftNum n) \<Rightarrow> numberToBoolean n
                  | other \<Rightarrow> shiftTruthy other))\<rparr>
         | FindElements \<Rightarrow> a\<lparr>element := el\<rparr>
         | OtherType \<Rightarrow> a)"

section \<open>Playback errors (\<open>core/errors\<close>)\<close>

text \<open>An error response of the remote executor: its \<open>errorId\<close> and \<open>message\<close>, the
  id and the action of the playback it answers, and the elements that matched.\<close>

record 'e error_response =
  errorId :: string
  message :: string
  playbackId :: "nat option"
  playbackAction :: "'e action"
  matchedElements :: "'e list"

definition formatAmbiguousElements :: "'e list \<Rightarrow> 'e piece list" where
  "formatAmbiguousElements elements =
     (let maxElements = 5;
          truncatedElements = take maxElements elements;
          truncated = (length elements > maxElements);
          formatted = map (\<lambda>(index, e).
                        [Txt ''// '', NumP (Num (real index)), Txt ''\<newline>'',
                         JsonElement (Some e)])
                      (enumerate 0 truncatedElements)
      in join [Txt ''\<newline>\<newline>''] formatted @
         (if truncated
          then [Txt ''\<newline>\<newline>...and '',
                NumP (Num (real (length elements - maxElements))), Txt '' more'']
          else []))"

text \<open>The constructor of \<open>ActionError\<close>, which its subclasses call through \<open>super\<close>.\<close>

definition actionError :: "err_class \<Rightarrow> 'e error_response \<Rightarrow> 'e piece list \<Rightarrow> 'e error" where
  "actionError c r m =
     \<lparr>cls = c, msg = m, err_errorId = Some (errorId r), err_playbackId = playbackId r\<rparr>"

definition new_ActionError :: "'e error_response \<Rightarrow> 'e error" where
  "new_ActionError r = actionError ActionError r [Txt (message r)]"

definition new_ActionElementNotFoundError :: "'e error_response \<Rightarrow> 'e error" where
  "new_ActionElementNotFoundError r =
     actionError ActionElementNotFoundError r
       [Txt ''No element found for selector\<newline>'', JsonElement (element (playbackAction r))]"

definition new_ActionAmbiguousElementError :: "'e error_response \<Rightarrow> 'e error" where
  "new_ActionAmbiguousElementError r =
     actionError ActionAmbiguousElementError r
       ([Txt ''Action requires 1 unique element but the selector returned '',
         NumP (Num (real (length (matchedElements r)))),
         Txt (''. Provide a '' @ [CHR 0x60] @ ''matchIndex'' @ [CHR 0x60] @
              '' to pick an element below or add additional attributes to your selector.\<newline>\<newline>'')]
        @ formatAmbiguousElements (matchedElements r))"

definition new_ActionInvalidArgumentError :: "'e error_response \<Rightarrow> 'e error" where
  "new_ActionInvalidArgumentError r =
     actionError ActionInvalidArgumentError r
       (if str_match ''outside the screen bounds'' (message r)
        then (case localPosition (playbackAction r) of
                Some lp \<Rightarrow>
                  [Txt ''localPosition ('', posPiece (fst lp), Txt '', '', posPiece (snd lp),
                   Txt '') for the element evaluates to a coordinate outside of screen bounds.'']
              | None \<Rightarrow> [Txt ''Element is outside of screen bounds.''])
        else [Txt (message r)])"

definition new_ActionInternalError :: "'e error_response \<Rightarrow> 'e error" where
  "new_ActionInternalError r =
     actionError ActionInternalError r
       [Txt ''An internal error has occurred for the action:\<newline>'',
        JsonAction (playbackAction r)]"

definition new_ActionTimeoutError :: "nat \<Rightarrow> 'e piece list \<Rightarrow> 'e error" where
  "new_ActionTimeoutError pid m =
     \<lparr>cls = ActionTimeoutError, msg = m, err_errorId = None, err_playbackId = Some pid\<rparr>"

definition new_RecorderRequiredError :: "string \<Rightarrow> 'e error" where
  "new_RecorderRequiredError feature =
     newError RecorderRequiredError
       [Txt ''App Recorder must be enabled to use '', Txt feature,
        Txt (''. Please set '' @ [CHR 0x22] @ ''record'' @ [CHR 0x22] @ '' to true in the config.'')]"

section \<open>\<open>validateElementAttributes\<close> (\<open>core/api/util\<close>)\<close>

definition intersect :: "'a list \<Rightarrow> 'a list \<Rightarrow> 'a list" where
  "intersect a b = filter (\<lambda>v. v \<in> set b) a"

definition knownAttributeFields :: "string list" where
  "knownAttributeFields =
     [''text'', ''accessibilityIdentifier'', ''accessibilityLabel'', ''resource-id'',
      ''content-desc'', ''class'', ''baseClass'']"

text \<open>The element is an object (its type says so); \<open>keysOf\<close> is \<open>Object.keys\<close>.\<close>

definition validateElementAttributes :: "('e \<Rightarrow> string list) \<Rightarrow> 'e \<Rightarrow> 'e error + 'e" where
  "validateElementAttributes keysOf el =
     (let rootAttributes = intersect (keysOf el) knownAttributeFields in
      if length rootAttributes > 0
      then Inl (newError JsError
             [Txt ''Element has invalid properties: '',
              Txt (join '', '' (map (\<lambda>v. [CHR 0x27] @ v @ [CHR 0x27]) rootAttributes)),
              Txt (''. Did you mean to put these under '' @ [CHR 0x27] @ ''attributes''
                   @ [CHR 0x27] @ ''?'')])
      else Inr el)"

section \<open>The action dispatcher: \<open>Session.playAction\<close>\<close>

text \<open>
  What \<open>playAction\<close> reads of the session: \<open>config.record\<close>, \<open>config.platform\<close>,
  \<open>device.screen\<close>, and the two functions on elements the mapper and the validation
  use.
\<close>

record 'e session_ctx =
  cfg_record :: bool
  cfg_platform :: platform
  dev_screen :: screen_bounds
  mapElementOut :: "'e \<Rightarrow> 'e"
  keysOf :: "'e \<Rightarrow> string list"

record play_options =
  opt_timeout :: "jsnum option"
  opt_noMap :: bool

text \<open>
  The events the session emits while an attempt listens: a success or an error, each
  with the id of the playback it answers (absent when the event carries none).
\<close>

datatype ('e, 'r) playback_event =
    PlaybackFoundAndSent "nat option" 'r
  | PlaybackError "'e error_response"

datatype ('e, 'r) settled = Resolved 'r | Rejected "'e error"

text \<open>\<open>handleError\<close>'s switch on \<open>errorId\<close>.\<close>

definition classify :: "'e error_response \<Rightarrow> 'e error" where
  "classify r =
     (if errorId r = ''internalError'' then new_ActionInternalError r
      else if errorId r = ''notFound'' then new_ActionElementNotFoundError r
      else if errorId r = ''ambiguousMatch'' then new_ActionAmbiguousElementError r
      else if errorId r = ''invalidArgument'' then new_ActionInvalidArgumentError r
      else new_ActionError r)"

text \<open>
  \<open>setTimeout(f, delay)\<close> takes its delay as a signed 32-bit integer of milliseconds. A
  \<open>delay\<close> between 1 and \<open>2147483647 = 2 ^ 31 - 1\<close> is truncated to whole milliseconds,
  and \<open>f\<close> runs that many milliseconds later; any other delay is replaced by 1
  millisecond (the rule of Node.js's timers).
\<close>

definition setTimeoutDelay :: "jsnum \<Rightarrow> real" where
  "setTimeoutDelay d =
     (case d of Num v \<Rightarrow> if 1 \<le> v \<and> v \<le> 2147483647 then of_int \<lfloor>v\<rfloor> else 1
              | _ \<Rightarrow> 1)"

text \<open>
  One attempt's promise. The events arrive in the order of the list, each at a time in
  milliseconds after the attempt began; the hard timeout fires \<open>delay\<close> milliseconds
  after it began and removes both listeners, so an event that arrives when the timer has
  fired finds none. An event for another playback id is ignored. No event at all leaves
  the timer.
\<close>

fun race ::
  "nat \<Rightarrow> real \<Rightarrow> (real \<times> ('e, 'r) playback_event) list \<Rightarrow> ('e, 'r) settled" where
  "race pid delay [] =
     Rejected (new_ActionTimeoutError pid [Txt ''Timed out waiting for response from device''])"
| "race pid delay ((tm, ev) # rest) =
     (if delay \<le> tm
      then Rejected (new_ActionTimeoutError pid
             [Txt ''Timed out waiting for response from device''])
      else (case ev of
              PlaybackFoundAndSent i v \<Rightarrow>
                if i \<noteq> Some pid then race pid delay rest else Resolved v
            | PlaybackError r \<Rightarrow>
                if playbackId r \<noteq> Some pid then race pid delay rest
                else Rejected (classify r)))"

text \<open>The events of attempt number \<open>k\<close> of a call (none past the end of the list),
  and whether an event answers the playback \<open>pid\<close>.\<close>

definition eventsOf :: "'x list list \<Rightarrow> nat \<Rightarrow> 'x list" where
  "eventsOf envs k = (if k < length envs then envs ! k else [])"

definition answers :: "nat \<Rightarrow> ('e, 'r) playback_event \<Rightarrow> bool" where
  "answers pid ev =
     (case ev of PlaybackFoundAndSent i v \<Rightarrow> i = Some pid
               | PlaybackError r \<Rightarrow> playbackId r = Some pid)"

text \<open>What \<open>playAction\<close> does before it sends: the recorder check, the checks of the
  timeout, the validation of the element and the mapping. It returns the mapped action
  and the timeout.\<close>

definition prepare ::
  "'e session_ctx \<Rightarrow> 'e action \<Rightarrow> play_options \<Rightarrow> 'e error + ('e action \<times> jsnum)" where
  "prepare c a opts =
     (let timeout = (case opt_timeout opts of None \<Rightarrow> Num 10000 | Some t \<Rightarrow> t) in
      if \<not> cfg_record c then Inl (new_RecorderRequiredError ''playAction()'')
      else if js_isNaN timeout
      then Inl (newError OperationalError [Txt ''Invalid timeout value: '', NumP timeout])
      else if js_lt timeout (Num 0)
      then Inl (newError OperationalError
             [Txt ''Timeout value cannot be negative: '', NumP timeout])
      else
        case (case element a of
                Some el \<Rightarrow> map_sum id (\<lambda>_. ()) (validateElementAttributes (keysOf c) el)
              | None \<Rightarrow> Inr ())
        of Inl e \<Rightarrow> Inl e | Inr _ \<Rightarrow>
        case (if opt_noMap opts then Inr a
              else Internal_mapAction (cfg_platform c) (dev_screen c) (mapElementOut c) a)
        of Inl e \<Rightarrow> Inl e | Inr mappedAction \<Rightarrow> Inr (mappedAction, timeout))"

text \<open>One attempt: the payload sent on the channel (\<open>id\<close>, \<open>action\<close>,
  \<open>options.timeout\<close> in seconds) and \<open>MAX_WAIT_FOR_RESPONSE\<close>, the delay with which the
  attempt calls \<open>setTimeout\<close> for its hard timeout, in milliseconds.\<close>

record 'e attempt =
  sent_id :: nat
  sent_action :: "'e action"
  sent_timeout :: jsnum
  hardTimeout :: jsnum

definition MAX_APP_RECORDER_TIMEOUT :: jsnum where
  "MAX_APP_RECORDER_TIMEOUT = Num 10000"

definition mkAttempt :: "nat \<Rightarrow> 'e action \<Rightarrow> jsnum \<Rightarrow> 'e attempt" where
  "mkAttempt pid mappedAction timeout =
     \<lparr>sent_id = pid, sent_action = mappedAction,
      sent_timeout = js_round (js_div (js_min timeout MAX_APP_RECORDER_TIMEOUT) (Num 1000)),
      hardTimeout = js_add timeout (Num 10000)\<rparr>"

definition retryable :: "jsnum \<Rightarrow> 'e error \<Rightarrow> bool" where
  "retryable remainingTimeout e =
     (js_gt remainingTimeout (Num 0) \<and> \<not> instanceof e ActionTimeoutError
      \<and> \<not> instanceof e ActionInternalError)"

text \<open>
  \<open>playAction c a opts n envs\<close>: \<open>uuid()\<close> is a counter (\<open>n\<close> is the next id, never
  returned before), and \<open>envs\<close> lists, attempt by attempt, the events that arrive while
  that attempt listens; the remote is silent in every attempt past the end of the list.
  An attempt is the race of these events against the timer set with the attempt's
  \<open>hardTimeout\<close>. The result is what the call returns or throws, with the log of its
  attempts.
\<close>

function playAction ::
  "'e session_ctx \<Rightarrow> 'e action \<Rightarrow> play_options \<Rightarrow> nat \<Rightarrow>
   (real \<times> ('e, 'r) playback_event) list list \<Rightarrow> ('e error + 'r) \<times> 'e attempt list" where
  "playAction c a opts n envs =
     (case prepare c a opts of
        Inl e \<Rightarrow> (Inl e, [])
      | Inr (mappedAction, timeout) \<Rightarrow>
          (case race n (setTimeoutDelay (hardTimeout (mkAttempt n mappedAction timeout)))
                  (eventsOf envs 0) of
             Resolved v \<Rightarrow> (Inr v, [mkAttempt n mappedAction timeout])
           | Rejected e \<Rightarrow>
               if retryable (js_max (Num 0) (js_sub timeout MAX_APP_RECORDER_TIMEOUT)) e
               then (case playAction c a
                            (opts\<lparr>opt_timeout :=
                               Some (js_max (Num 0) (js_sub timeout MAX_APP_RECORDER_TIMEOUT))\<rparr>)
                            (Suc n) (tl envs)
                     of (r, atts) \<Rightarrow> (r, mkAttempt n mappedAction timeout # atts))
               else (Inl e, [mkAttempt n mappedAction timeout])))"
  by pat_completeness auto
termination
proof (relation "measure (\<lambda>(c, a, opts, n, envs). length envs)")
  show "wf (measure (\<lambda>(c, a, opts, n, envs). length envs))"
    by simp
next
  fix c :: "'e session_ctx" and a :: "'e action" and opts :: play_options and n :: nat
    and envs :: "(real \<times> ('e, 'r) playback_event) list list"
    and x2 :: "'e action \<times> jsnum" and mappedAction :: "'e action" and timeout :: jsnum
    and e :: "'e error"
  assume r: "race n (setTimeoutDelay (hardTimeout (mkAttempt n mappedAction timeout)))
               (eventsOf envs 0) = (Rejected e :: ('e, 'r) settled)"
    and retry: "retryable (js_max (Num 0) (js_sub timeout MAX_APP_RECORDER_TIMEOUT)) e"
  have "envs \<noteq> []"
  proof
    assume "envs = []"
    with r have "e = new_ActionTimeoutError n [Txt ''Timed out waiting for response from device'']"
      by (simp add: eventsOf_def)
    with retry show False
      by (simp add: retryable_def instanceof_def new_ActionTimeoutError_def)
  qed
  then show "((c, a, opts\<lparr>opt_timeout := Some (js_max (Num 0)
                 (js_sub timeout MAX_APP_RECORDER_TIMEOUT))\<rparr>, Suc n, tl envs),
              (c, a, opts, n, envs)) \<in> measure (\<lambda>(c, a, opts, n, envs). length envs)"
    by (cases envs) simp_all
qed

declare playAction.simps [simp del]

text \<open>Two actions to run the functions on: \<open>{type: 'tap', position: p}\<close> and
  \<open>{type: 'tap', coordinates: c}\<close>.\<close>

definition tapAt :: "position \<Rightarrow> 'e action" where
  "tapAt p =
     \<lparr>atype = Tap, element = None, position = Some p, coordinates = None,
      localPosition = None, duration = None, moves = [], key = None, character = None,
      shiftKey = None\<rparr>"

definition tapAtCoordinates :: "coords \<Rightarrow> 'e action" where
  "tapAtCoordinates c =
     \<lparr>atype = Tap, element = None, position = None, coordinates = Some c,
      localPosition = None, duration = None, moves = [], key = None, character = None,
      shiftKey = None\<rparr>"

section \<open>The gesture path builder: \<open>SwipeGesture.build\<close>\<close>











section \<open>The session's socket handler and the channel\<close>










definition removeListener :: "nat \<Rightarrow> nat list \<Rightarrow> nat list" where
  "removeListener l ls = rev (remove1 l (rev ls))"







section \<open>\<open>Session.waitForAnimations\<close>: the shared pixel-change detection\<close>

text \<open>
  The part of the session that concurrent \<open>waitForAnimations\<close> calls share: the set
  \<open>_waitForAnimationsPromises\<close> (a JavaScript \<open>Set\<close>, kept in insertion order), the
  \<open>pixelsChanged\<close> listeners on the socket, and the commands sent on the socket. A
  promise is named by a number; \<open>createDeferredPromise\<close> returns one that did not exist
  before.
\<close>

record anim_state =
  promises :: "nat list"
  pixelListeners :: "nat list"
  sent :: "string list"
  nextPromise :: nat

datatype anim_outcome = AnimResolved | AnimTimedOut | AnimRejected

definition set_add :: "nat \<Rightarrow> nat list \<Rightarrow> nat list" where
  "set_add p ps = (if p \<in> set ps then ps else ps @ [p])"

definition set_delete :: "nat \<Rightarrow> nat list \<Rightarrow> nat list" where
  "set_delete p ps = removeAll p ps"

definition initialAnim :: anim_state where
  "initialAnim = \<lparr>promises = [], pixelListeners = [], sent = [], nextPromise = 0\<rparr>"

text \<open>The call up to its \<open>await\<close>: it returns the new promise.\<close>

definition waitForAnimations_begin :: "anim_state \<Rightarrow> nat \<times> anim_state" where
  "waitForAnimations_begin s =
     (let promise = nextPromise s in
      (promise,
       s\<lparr>sent := sent s @ [''enablePixelChangeDetection''],
         pixelListeners := pixelListeners s @ [promise],
         promises := set_add promise (promises s),
         nextPromise := Suc promise\<rparr>))"

text \<open>The \<open>finally\<close> callback of the call whose promise is \<open>promise\<close>; it runs however
  the promise settled, and the call then returns or throws accordingly.\<close>

definition waitForAnimations_finally ::
  "anim_state \<Rightarrow> nat \<Rightarrow> anim_outcome \<Rightarrow> anim_outcome \<times> anim_state" where
  "waitForAnimations_finally s promise outcome =
     (let s1 = s\<lparr>pixelListeners := removeListener promise (pixelListeners s),
                 promises := set_delete promise (promises s)\<rparr>
      in (outcome,
          if length (promises s1) = 0
          then s1\<lparr>sent := sent s1 @ [''disablePixelChangeDetection'']\<rparr>
          else s1))"

text \<open>A schedule of calls beginning and finishing, in any interleaving.\<close>

datatype anim_step = Begin | Finish nat anim_outcome

fun runAnim :: "anim_state \<Rightarrow> anim_step list \<Rightarrow> anim_state" where
  "runAnim s [] = s"
| "runAnim s (Begin # steps) = runAnim (snd (waitForAnimations_begin s)) steps"
| "runAnim s (Finish p outcome # steps) =
     runAnim (snd (waitForAnimations_finally s p outcome)) steps"

text \<open>Whether detection is on at the remote after the commands of a log: the last
  toggle decides.\<close>

definition detectionOn :: "string list \<Rightarrow> bool" where
  "detectionOn cmds =
     foldl (\<lambda>on c. if c = ''enablePixelChangeDetection'' then True
                    else if c = ''disablePixelChangeDetection'' then False
                    else on) False cmds"

section \<open>Concrete inputs and auxiliary notions\<close>

text \<open>A session that records, on an iOS device with a 101 by 201 screen; a tap at the
  centre of the screen; options with a timeout; an error response of the remote for the
  playback \<open>pid\<close>; and the events of a few runs.\<close>

definition demoCtx :: "unit session_ctx" where
  "demoCtx =
     \<lparr>cfg_record = True, cfg_platform = Ios,
      dev_screen = \<lparr>width = 101, height = 201, devicePixelRatio = None\<rparr>,
      mapElementOut = (\<lambda>e. e), keysOf = (\<lambda>_. [])\<rparr>"

definition demoTap :: "unit action" where
  "demoTap = tapAt (PNum (Num (1 / 2)), PNum (Num (1 / 2)))"

definition withTimeout :: "real \<Rightarrow> play_options" where
  "withTimeout t = \<lparr>opt_timeout = Some (Num t), opt_noMap = False\<rparr>"

definition errorResponse :: "string \<Rightarrow> nat \<Rightarrow> unit error_response" where
  "errorResponse eid pid =
     \<lparr>errorId = eid, message = ''failed'', playbackId = Some pid, playbackAction = demoTap,
      matchedElements = []\<rparr>"

definition outsideBoundsResponse :: "position option \<Rightarrow> nat \<Rightarrow> unit error_response" where
  "outsideBoundsResponse lp pid =
     \<lparr>errorId = ''invalidArgument'', message = ''Tap is outside the screen bounds'',
      playbackId = Some pid, playbackAction = demoTap\<lparr>localPosition := lp\<rparr>,
      matchedElements = []\<rparr>"

type_synonym demo_events = "(real \<times> (unit, unit) playback_event) list list"

definition notFoundThrice :: demo_events where
  "notFoundThrice =
     [[(100, PlaybackError (errorResponse ''notFound'' 0))],
      [(100, PlaybackError (errorResponse ''notFound'' 1))],
      [(100, PlaybackError (errorResponse ''notFound'' 2))]]"

definition invalidThenFound :: demo_events where
  "invalidThenFound =
     [[(100, PlaybackError (errorResponse ''invalidArgument'' 0))],
      [(100, PlaybackFoundAndSent (Some 1) ())]]"

text \<open>Two events that answer no attempt of the runs below, an error for another
  playback and a success without an id; and a run in which, after them, the success of
  the first attempt arrives \<open>tm\<close> milliseconds after the attempt began.\<close>

definition strangersFirst :: "(real \<times> (unit, unit) playback_event) list" where
  "strangersFirst =
     [(50, PlaybackError (errorResponse ''notFound'' 7)), (60, PlaybackFoundAndSent None ())]"





text \<open>The elements a message lists: those it interpolates as JSON, in order.\<close>

definition listedElements :: "'e piece list \<Rightarrow> 'e list" where
  "listedElements ps =
     concat (map (\<lambda>p. case p of JsonElement (Some e) \<Rightarrow> [e] | _ \<Rightarrow> []) ps)"

text \<open>The invariant of the shared detection: while a call waits, detection is
  on.\<close>

definition waiting_implies_detection :: "anim_state \<Rightarrow> bool" where
  "waiting_implies_detection s = (promises s = [] \<or> detectionOn (sent s))"


section \<open>Properties of rounding to a double\<close>

lemma roundTiesEven_int [simp]: "roundTiesEven (of_int k) = k"
  by (simp add: roundTiesEven_def)


lemma roundTiesEven_ge: "of_int k \<le> y \<Longrightarrow> k \<le> roundTiesEven y"
proof -
  assume "of_int k \<le> y"
  hence "k \<le> \<lfloor>y\<rfloor>" by (simp add: le_floor_iff)
  thus ?thesis by (auto simp: roundTiesEven_def Let_def)
qed


lemma powi_split: "(2::real) powi e = 2 ^ n * 2 powi (e - int n)"
proof -
  have "(2::real) powi (int n + (e - int n)) = 2 powi int n * 2 powi (e - int n)"
    by (rule power_int_add) simp
  thus ?thesis by (simp add: power_int_of_nat)
qed

text \<open>\<open>exponentOf x\<close> is the binary exponent of \<open>x\<close>.\<close>

lemma exponentOf_bounds:
  assumes "x \<noteq> 0"
  shows "2 powi exponentOf x \<le> \<bar>x\<bar>" and "\<bar>x\<bar> < 2 powi (exponentOf x + 1)"
proof -
  have "2 powi exponentOf x \<le> \<bar>x\<bar> \<and> \<bar>x\<bar> < 2 powi (exponentOf x + 1)"
  proof (cases "1 \<le> \<bar>x\<bar>")
    case True
    define m where "m = \<lfloor>\<bar>x\<bar>\<rfloor>"
    have m: "0 < m" using True by (simp add: m_def)
    have e: "exponentOf x = bitlen m - 1" using True by (simp add: exponentOf_def m_def)
    from bitlen_bounds[OF m] have b: "2 ^ nat (bitlen m - 1) \<le> m" "m < 2 ^ nat (bitlen m)" by auto
    have b1: "1 \<le> bitlen m" using m by (simp add: bitlen_alt_def)
    have "2 powi (bitlen m - 1) = (2::real) ^ nat (bitlen m - 1)"
      using b1 by (simp add: power_int_def)
    also have "\<dots> = of_int (2 ^ nat (bitlen m - 1))" by simp
    also have "\<dots> \<le> of_int m" using b(1) by (simp only: of_int_le_iff)
    also have "\<dots> \<le> \<bar>x\<bar>" by (simp add: m_def)
    finally have lo: "2 powi (bitlen m - 1) \<le> \<bar>x\<bar>" .
    have "m + 1 \<le> 2 ^ nat (bitlen m)" using b(2) by simp
    hence "(of_int (m + 1) :: real) \<le> of_int (2 ^ nat (bitlen m))" by (simp only: of_int_le_iff)
    moreover have "\<bar>x\<bar> < of_int (m + 1)" unfolding m_def by linarith
    ultimately have "\<bar>x\<bar> < (2::real) ^ nat (bitlen m)" by simp
    also have "\<dots> = 2 powi (bitlen m - 1 + 1)" using b1 by (simp add: power_int_def)
    finally show ?thesis using lo e by simp
  next
    case False
    hence lt: "\<bar>x\<bar> < 1" by simp
    have pos: "0 < \<bar>x\<bar>" using assms by simp
    define y where "y = 1 / \<bar>x\<bar>"
    have y1: "1 < y" using lt pos by (simp add: y_def)
    define m where "m = \<lceil>y\<rceil> - 1"
    have m: "0 < m" using y1 unfolding m_def by linarith
    have e: "exponentOf x = - bitlen m" using False by (simp add: exponentOf_def m_def y_def)
    from bitlen_bounds[OF m] have b: "2 ^ nat (bitlen m - 1) \<le> m" "m < 2 ^ nat (bitlen m)" by auto
    have b1: "1 \<le> bitlen m" using m by (simp add: bitlen_alt_def)
    have "m + 1 \<le> 2 ^ nat (bitlen m)" using b(2) by simp
    hence "(of_int (m + 1) :: real) \<le> of_int (2 ^ nat (bitlen m))" by (simp only: of_int_le_iff)
    moreover have "y \<le> of_int (m + 1)" unfolding m_def by simp
    ultimately have yle: "y \<le> 2 ^ nat (bitlen m)" by simp
    have "(2::real) ^ nat (bitlen m - 1) \<le> of_int m" using b(1) by simp
    moreover have "of_int m < y" unfolding m_def by linarith
    ultimately have ylt: "2 ^ nat (bitlen m - 1) < y" by linarith
    have "2 powi (- bitlen m) = 1 / (2::real) ^ nat (bitlen m)"
      using b1 by (simp add: power_int_def power_one_over inverse_eq_divide)
    also have "\<dots> \<le> 1 / y" using yle y1 by (simp add: frac_le)
    also have "\<dots> = \<bar>x\<bar>" by (simp add: y_def)
    finally have lo: "2 powi (- bitlen m) \<le> \<bar>x\<bar>" .
    have "\<bar>x\<bar> = 1 / y" by (simp add: y_def)
    also have "\<dots> < 1 / 2 ^ nat (bitlen m - 1)" using ylt by (simp add: frac_less2)
    also have "\<dots> = 2 powi (- bitlen m + 1)"
    proof (cases "bitlen m = 1")
      case True then show ?thesis by simp
    next
      case False
      hence "- bitlen m + 1 < 0" using b1 by simp
      moreover have "nat (- (- bitlen m + 1)) = nat (bitlen m - 1)" by simp
      ultimately show ?thesis by (simp add: power_int_def power_one_over inverse_eq_divide)
    qed
    finally show ?thesis using lo e by simp
  qed
  thus "2 powi exponentOf x \<le> \<bar>x\<bar>" and "\<bar>x\<bar> < 2 powi (exponentOf x + 1)" by auto
qed

lemma exponentOf_less:
  assumes "x \<noteq> 0" and "\<bar>x\<bar> < 2 powi k"
  shows "exponentOf x < k"
proof (rule ccontr)
  assume "\<not> exponentOf x < k"
  hence "k \<le> exponentOf x" by simp
  hence "(2::real) powi k \<le> 2 powi exponentOf x" by (intro power_int_increasing) auto
  with exponentOf_bounds(1)[OF assms(1)] assms(2) show False by linarith
qed

lemma exponentOf_ge:
  assumes "x \<noteq> 0" and "2 powi k \<le> \<bar>x\<bar>"
  shows "k \<le> exponentOf x"
proof (rule ccontr)
  assume "\<not> k \<le> exponentOf x"
  hence "exponentOf x + 1 \<le> k" by simp
  hence "(2::real) powi (exponentOf x + 1) \<le> 2 powi k" by (intro power_int_increasing) auto
  with exponentOf_bounds(2)[OF assms(1)] assms(2) show False by linarith
qed



text \<open>A number \<open>m / 2 ^ j\<close> with \<open>|m| < 2 ^ 53\<close> is a double, and \<open>fl\<close> leaves it as it
  is; so it does every integer below \<open>2 ^ 53\<close> in magnitude.\<close>

lemma fl_dyadic:
  assumes m: "\<bar>m\<bar> < 2 ^ 53" and j: "j \<le> 1074"
  shows "fl (of_int m / 2 ^ j) = Num (of_int m / 2 ^ j)"
proof (cases "m = 0")
  case True then show ?thesis by (simp add: fl_def)
next
  case False
  define x :: real where "x = of_int m / 2 ^ j"
  have x0: "x \<noteq> 0" using False by (simp add: x_def)
  have xp: "x = of_int m * 2 powi (- int j)"
    by (simp add: x_def power_int_minus divide_inverse)
  have mle: "\<bar>of_int m :: real\<bar> < 2 ^ 53" using m by (simp flip: of_int_abs)
  have "\<bar>x\<bar> = \<bar>of_int m\<bar> * 2 powi (- int j)" by (simp add: xp abs_mult)
  also have "\<dots> < 2 ^ 53 * 2 powi (- int j)" using mle by (intro mult_strict_right_mono) auto
  also have "\<dots> = 2 powi (53 - int j)"
    using power_int_add[of "2::real" 53 "- int j"] by simp
  finally have "exponentOf x < 53 - int j" using exponentOf_less[OF x0] by blast
  define e where "e = max (exponentOf x) (- 1022)"
  have ele: "e \<le> 52 - int j" using \<open>exponentOf x < 53 - int j\<close> j by (simp add: e_def)
  define k where "k = nat (52 - int j - e)"
  have kk: "int k = 52 - int j - e" using ele by (simp add: k_def)
  define u :: real where "u = 2 powi (e - 52)"
  have upos: "0 < u" by (simp add: u_def)
  have "x / u = of_int m * (2 powi (- int j) / 2 powi (e - 52))" by (simp add: xp u_def)
  also have "2 powi (- int j) / (2::real) powi (e - 52) = 2 powi (- int j - (e - 52))"
    by (simp add: power_int_diff)
  also have "- int j - (e - 52) = int k" using kk by simp
  finally have xu: "x / u = of_int (m * 2 ^ k)" by (simp add: power_int_of_nat)
  have r: "of_int (roundTiesEven (x / u)) * u = x"
  proof -
    have "roundTiesEven (x / u) = m * 2 ^ k" unfolding xu by (rule roundTiesEven_int)
    hence "of_int (roundTiesEven (x / u)) = x / u" using xu by simp
    thus ?thesis using upos by simp
  qed
  have "\<bar>x\<bar> \<le> \<bar>of_int m\<bar>"
  proof -
    have "\<bar>x\<bar> = \<bar>of_int m\<bar> / 2 ^ j" by (simp add: x_def)
    also have "\<dots> \<le> \<bar>of_int m\<bar> / 1" by (intro divide_left_mono) auto
    finally show ?thesis by simp
  qed
  hence "\<bar>x\<bar> < 2 ^ 53" using mle by linarith
  moreover have "(2::real) ^ 53 \<le> 2 ^ 1024" by (intro power_increasing) auto
  ultimately have small: "\<not> 2 powi 1024 \<le> \<bar>x\<bar>" by simp
  have "fl x = Num x"
    using x0 small r unfolding fl_def Let_def e_def[symmetric] u_def[symmetric] by simp
  thus ?thesis by (simp add: x_def)
qed

lemma fl_int: "\<bar>n\<bar> < 2 ^ 53 \<Longrightarrow> fl (of_int n) = Num (of_int n)"
  using fl_dyadic[of n 0] by simp

lemma fl_nat: "n < 2 ^ 53 \<Longrightarrow> fl (real n) = Num (real n)"
  using fl_int[of "int n"] by simp

lemma fl_neg_nat: "n < 2 ^ 53 \<Longrightarrow> fl (- real n) = Num (- real n)"
  using fl_int[of "- int n"] by simp

lemma fl_numeral: "(numeral k :: nat) < 2 ^ 53 \<Longrightarrow> fl (numeral k) = Num (numeral k)"
  using fl_nat[of "numeral k"] by simp

lemma fl_neg_numeral:
  "(numeral k :: nat) < 2 ^ 53 \<Longrightarrow> fl (- numeral k) = Num (- numeral k)"
  using fl_neg_nat[of "numeral k"] by simp

lemma fl_zero: "fl 0 = Num 0"
  by (simp add: fl_def)

lemma fl_one: "fl 1 = Num 1"
  using fl_nat[of 1] by simp

lemmas fl_eval = fl_numeral fl_neg_numeral fl_zero fl_one


text \<open>A number of \<open>2 ^ 1024\<close> or more is rounded to \<open>Infinity\<close>.\<close>

lemma fl_overflow:
  assumes "2 powi 1024 \<le> x"
  shows "fl x = PInf"
proof -
  have "(0::real) < 2 powi 1024" by simp
  hence xpos: "0 < x" using assms by linarith
  hence x0: "x \<noteq> 0" by simp
  have "1024 \<le> exponentOf x" using exponentOf_ge[OF x0, of 1024] assms xpos by simp
  define e where "e = max (exponentOf x) (- 1022)"
  have ee: "e = exponentOf x" "1024 \<le> e" using \<open>1024 \<le> exponentOf x\<close> by (auto simp: e_def)
  define u :: real where "u = 2 powi (e - 52)"
  have upos: "0 < u" by (simp add: u_def)
  have eq: "2 powi e = (2::real) ^ 52 * u"
    using powi_split[of e 52] by (simp add: u_def)
  have "2 powi e \<le> x" using exponentOf_bounds(1)[OF x0] xpos ee by simp
  hence "of_int (2 ^ 52) \<le> x / u" using upos by (simp add: eq pos_le_divide_eq)
  hence "2 ^ 52 \<le> roundTiesEven (x / u)" by (rule roundTiesEven_ge)
  hence "(2::real) ^ 52 \<le> of_int (roundTiesEven (x / u))" by simp
  hence "2 ^ 52 * u \<le> of_int (roundTiesEven (x / u)) * u"
    using upos by (intro mult_right_mono) auto
  moreover have "(2::real) powi 1024 \<le> 2 powi e" by (intro power_int_increasing) (use ee in auto)
  ultimately have big: "2 powi 1024 \<le> \<bar>of_int (roundTiesEven (x / u)) * u\<bar>"
    using eq by linarith
  show ?thesis
    using x0 xpos big unfolding fl_def Let_def e_def[symmetric] u_def[symmetric] by simp
qed


section \<open>Properties of the coordinate mapper\<close>

subsection \<open>Percentage strings\<close>

text \<open>\<open>parseInt\<close> on white space, then a run of digits, then a character that is no
  digit: the number that the digits denote, as a double.\<close>

lemma parseInt_digits_then_other:
  assumes "list_all isWhiteSpace ws" "ds \<noteq> []" "list_all isDigit ds" "\<not> isDigit c"
  shows "parseInt (ws @ ds @ c # rest) = fl (real (digitsValue ds))"
proof -
  obtain d ds' where ds: "ds = d # ds'" using assms(2) by (cases ds) auto
  have d: "isDigit d" using assms(3) ds by simp
  have nw: "\<not> isWhiteSpace d" using d by (auto simp: isDigit_def isWhiteSpace_def)
  have nm: "d \<noteq> 45" "d \<noteq> 43" using d by (auto simp: isDigit_def)
  have tw: "takeWhile isDigit (ds @ c # rest) = ds"
    using assms(3,4) by (simp add: takeWhile_append2 list_all_iff)
  have "dropWhile isWhiteSpace (ws @ ds @ c # rest) = dropWhile isWhiteSpace (ds @ c # rest)"
    using assms(1) by (simp add: dropWhile_append2 list_all_iff)
  then have dw: "dropWhile isWhiteSpace (ws @ ds @ c # rest) = ds @ c # rest"
    using nw by (simp add: ds)
  show ?thesis
    unfolding parseInt_def dw using tw nm assms(2) by (simp add: ds)
qed

lemma digitsValue_zeros:
  "foldl (\<lambda>acc u. 10 * acc + digitValue u) a (replicate n 48) = a * 10 ^ n"
  by (induction n arbitrary: a) (simp_all add: digitValue_def)

lemma parse_beyond_doubles:
  "parsePositionValue (PStr (units ''1'' @ replicate 309 48 @ units ''%''))
     = (Inr PInf :: 'e error + jsnum)"
proof -
  have nd: "\<not> isDigit 37" by (simp add: isDigit_def)
  have dg: "list_all isDigit (49 # replicate 309 48)"
    by (simp add: isDigit_def list_all_iff)
  have d: "digitValue 49 = 1" by (simp add: digitValue_def)
  have "digitsValue (49 # replicate 309 48)
        = foldl (\<lambda>acc u. 10 * acc + digitValue u) (10 * 0 + digitValue 49) (replicate 309 48)"
    by (simp only: digitsValue_def foldl.simps)
  also have "\<dots> = (10 * 0 + digitValue 49) * 10 ^ 309" by (rule digitsValue_zeros)
  finally have v: "digitsValue (49 # replicate 309 48) = 10 ^ 309" by (simp add: d)
  have "(2::real) powi 1024 \<le> 10 ^ 309" by simp
  then have "fl (real (digitsValue (49 # replicate 309 48))) = PInf"
    unfolding v by (intro fl_overflow) simp
  then have p: "parseInt (49 # replicate 309 48 @ [37]) = PInf"
    using parseInt_digits_then_other[of "[]" "49 # replicate 309 48" 37 "[]"] nd dg by simp
  have e: "endsWith (49 # replicate 309 48 @ [37]) 37" by (simp add: endsWith_def)
  show ?thesis
    using p e by (simp add: parsePositionValue_def units_def)
qed

text \<open>
  Claim C10. A position value that is a string ending in \<open>%\<close> is parsed to
  \<open>parseInt(value, 10) / 100\<close>. So a percentage written with a fraction, digits \<open>ds\<close>
  (after any white space), a point, anything \<open>fs\<close> and the \<open>%\<close>, is parsed to the number
  the digits \<open>ds\<close> denote, over 100, whatever \<open>fs\<close> is: exactly so when that number is
  below \<open>2 ^ 53\<close>, and rounded to a double in general. \<open>12.75%\<close> gives 0.12, also after a
  no-break space, and \<open>-12.75%\<close> gives -0.12; a one followed by 309 zeros gives
  \<open>Infinity\<close>. A string that does not end in \<open>%\<close> is rejected with an \<open>Error\<close>, which is not
  an operational error.
\<close>

theorem parsePositionValue_percent:
  "(endsWith s 37 \<longrightarrow>
      parsePositionValue (PStr s) = (Inr (js_div (parseInt s) (Num 100)) :: 'e error + jsnum))
   \<and> (list_all isWhiteSpace ws \<and> ds \<noteq> [] \<and> list_all isDigit ds \<longrightarrow>
      parsePositionValue (PStr (ws @ ds @ units ''.'' @ fs @ units ''%''))
        = (Inr (js_div (fl (real (digitsValue ds))) (Num 100)) :: 'e error + jsnum))
   \<and> (list_all isWhiteSpace ws \<and> ds \<noteq> [] \<and> list_all isDigit ds \<and> digitsValue ds < 2 ^ 53 \<longrightarrow>
      parsePositionValue (PStr (ws @ ds @ units ''.'' @ fs @ units ''%''))
        = (Inr (Num (real (digitsValue ds) / 100)) :: 'e error + jsnum))
   \<and> parsePositionValue (PStr (units ''12.75%'')) = (Inr (Num (12 / 100)) :: 'e error + jsnum)
   \<and> parsePositionValue (PStr (160 # units ''12.75%''))
        = (Inr (Num (12 / 100)) :: 'e error + jsnum)
   \<and> parsePositionValue (PStr (units ''-12.75%''))
        = (Inr (Num (- 12 / 100)) :: 'e error + jsnum)
   \<and> parsePositionValue (PStr (units ''1'' @ replicate 309 48 @ units ''%''))
        = (Inr PInf :: 'e error + jsnum)
   \<and> (\<not> endsWith s 37 \<longrightarrow>
      (\<exists>e :: 'e error. parsePositionValue (PStr s) = Inl e \<and> cls e = JsError
          \<and> \<not> isOperational e))"
proof (intro conjI impI)
  assume "endsWith s 37"
  then show "parsePositionValue (PStr s) = (Inr (js_div (parseInt s) (Num 100)) :: 'e error + jsnum)"
    by (simp add: parsePositionValue_def)
next
  assume a: "list_all isWhiteSpace ws \<and> ds \<noteq> [] \<and> list_all isDigit ds"
  have nd: "\<not> isDigit 46" by (simp add: isDigit_def)
  have p: "parseInt (ws @ ds @ units ''.'' @ fs @ units ''%'') = fl (real (digitsValue ds))"
    using parseInt_digits_then_other[of ws ds 46 "fs @ units ''%''"] a nd
    by (simp add: units_def)
  have e: "endsWith (ws @ ds @ units ''.'' @ fs @ units ''%'') 37"
    by (simp add: endsWith_def units_def)
  show "parsePositionValue (PStr (ws @ ds @ units ''.'' @ fs @ units ''%''))
        = (Inr (js_div (fl (real (digitsValue ds))) (Num 100)) :: 'e error + jsnum)"
    using p e by (simp add: parsePositionValue_def)
next
  assume a: "list_all isWhiteSpace ws \<and> ds \<noteq> [] \<and> list_all isDigit ds \<and> digitsValue ds < 2 ^ 53"
  have nd: "\<not> isDigit 46" by (simp add: isDigit_def)
  have "parseInt (ws @ ds @ units ''.'' @ fs @ units ''%'') = fl (real (digitsValue ds))"
    using parseInt_digits_then_other[of ws ds 46 "fs @ units ''%''"] a nd
    by (simp add: units_def)
  then have p: "parseInt (ws @ ds @ units ''.'' @ fs @ units ''%'') = Num (real (digitsValue ds))"
    using a fl_nat[of "digitsValue ds"] by simp
  have e: "endsWith (ws @ ds @ units ''.'' @ fs @ units ''%'') 37"
    by (simp add: endsWith_def units_def)
  show "parsePositionValue (PStr (ws @ ds @ units ''.'' @ fs @ units ''%''))
        = (Inr (Num (real (digitsValue ds) / 100)) :: 'e error + jsnum)"
    using p e by (simp add: parsePositionValue_def)
next
  show "parsePositionValue (PStr (units ''12.75%'')) = (Inr (Num (12 / 100)) :: 'e error + jsnum)"
    by (simp add: parsePositionValue_def endsWith_def parseInt_def isWhiteSpace_def
        isDigit_def digitsValue_def digitValue_def units_def fl_eval)
next
  show "parsePositionValue (PStr (160 # units ''12.75%''))
        = (Inr (Num (12 / 100)) :: 'e error + jsnum)"
    by (simp add: parsePositionValue_def endsWith_def parseInt_def isWhiteSpace_def
        isDigit_def digitsValue_def digitValue_def units_def fl_eval)
next
  show "parsePositionValue (PStr (units ''-12.75%''))
        = (Inr (Num (- 12 / 100)) :: 'e error + jsnum)"
    by (simp add: parsePositionValue_def endsWith_def parseInt_def isWhiteSpace_def
        isDigit_def digitsValue_def digitValue_def units_def fl_eval)
next
  show "parsePositionValue (PStr (units ''1'' @ replicate 309 48 @ units ''%''))
        = (Inr PInf :: 'e error + jsnum)"
    by (rule parse_beyond_doubles)
next
  assume "\<not> endsWith s 37"
  then show "\<exists>e :: 'e error. parsePositionValue (PStr s) = Inl e \<and> cls e = JsError
                \<and> \<not> isOperational e"
    by (simp add: parsePositionValue_def newError_def isOperational_def instanceof_def)
qed

theorem parsePositionValue_percent_witness:
  "endsWith (units ''50%'') 37
   \<and> parsePositionValue (PStr (units ''50%'')) = (Inr (Num (1 / 2)) :: unit error + jsnum)
   \<and> list_all isWhiteSpace (units '' '') \<and> units ''7'' \<noteq> [] \<and> list_all isDigit (units ''7'')
   \<and> digitsValue (units ''7'') < 2 ^ 53
   \<and> parsePositionValue (PStr (units '' '' @ units ''7'' @ units ''.'' @ units ''9'' @ units ''%''))
       = (Inr (Num (7 / 100)) :: unit error + jsnum)
   \<and> js_div (fl (real (digitsValue (units ''7'')))) (Num 100) = Num (7 / 100)
   \<and> \<not> endsWith (units ''50'') 37
   \<and> (\<exists>e :: unit error. parsePositionValue (PStr (units ''50'')) = Inl e \<and> cls e = JsError
         \<and> \<not> isOperational e)"
  using parsePositionValue_percent[of "units ''50%''" "units '' ''" "units ''7''" "units ''9''",
      where 'e = unit]
    parsePositionValue_percent[of "units ''50''" "units '' ''" "units ''7''" "units ''9''",
      where 'e = unit]
  by (simp add: endsWith_def parseInt_def isWhiteSpace_def isDigit_def digitsValue_def
      digitValue_def units_def fl_eval)

subsection \<open>Evaluating the mapper\<close>

lemmas mapper_defs = Internal_mapAction_def Public_mapAction_def mapPosition_def
  parsePositionValue_def isValidNumber_def isPositionWithinBounds_def getCoordinates_def
  outBounds_def dipToPixel_def pixelToDip_def getPosition_def orOne_def js_gt_def js_sub_def
  mapLocalPosition_def checkDuration_def tapAt_def mapCoordinates_def
  isCoordinatesWithinBounds_def tapAtCoordinates_def

lemmas parse_defs = endsWith_def parseInt_def isWhiteSpace_def isDigit_def digitsValue_def
  digitValue_def units_def fl_eval

text \<open>
  Claim C3. The claim is that a position in \<open>[0, 1]\<close>, mapped outbound to pixel
  coordinates and back inbound, comes back unchanged on every screen and platform. The
  code does not do that when the screen has a device pixel ratio other than 1. On an
  Android screen of 360 by 640 with ratio 3 the position \<open>(1, 1)\<close> goes out as the pixel
  \<open>(1079, 1919)\<close> and comes back as \<open>(1079/1077, 1919/1917)\<close>, outside \<open>[0, 1]\<close>: outbound
  multiplies by the size in pixels less one, inbound divides by the ratio and then by the
  size in points less one. On an iOS screen of 101 by 201 with ratio 2 the position
  \<open>(1/2, 1/2)\<close> goes out as \<open>(50, 100)\<close>, no ratio applied, and comes back as
  \<open>(1/4, 1/4)\<close>: inbound divides by the ratio on every platform.
\<close>

theorem position_round_trip_with_pixel_ratio:
  "Internal_mapAction Android \<lparr>width = 360, height = 640, devicePixelRatio = Some 3\<rparr> mapEl
       (tapAt (PNum (Num 1), PNum (Num 1)))
     = Inr (tapAtCoordinates (Num 1079, Num 1919))
   \<and> position (Public_mapAction Android
         \<lparr>width = 360, height = 640, devicePixelRatio = Some 3\<rparr> mapEl' boundsOf
         (tapAtCoordinates (Num 1079, Num 1919)))
     = Some (PNum (Num (1079 / 1077)), PNum (Num (1919 / 1917)))
   \<and> Internal_mapAction Ios \<lparr>width = 101, height = 201, devicePixelRatio = Some 2\<rparr> mapEl
       (tapAt (PNum (Num (1 / 2)), PNum (Num (1 / 2))))
     = Inr (tapAtCoordinates (Num 50, Num 100))
   \<and> position (Public_mapAction Ios
         \<lparr>width = 101, height = 201, devicePixelRatio = Some 2\<rparr> mapEl' boundsOf
         (tapAtCoordinates (Num 50, Num 100)))
     = Some (PNum (Num (1 / 4)), PNum (Num (1 / 4)))
   \<and> (1 :: real) < 1079 / 1077 \<and> (1 :: real) < 1919 / 1917 \<and> (1 / 4 :: real) \<noteq> 1 / 2"
  by (simp add: mapper_defs)

text \<open>
  Claim C8. The claim is that the outbound mapper rejects, never clamps, a position
  outside \<open>[0, 1]\<close> or a malformed one, and that every such rejection is an operational
  error. The rejections hold; the class does not. A position outside the range, as a
  number or as a percentage, and a string that is no percentage are rejected with a
  plain \<open>Error\<close>, on which \<open>isOperational\<close> is not set. A percentage without digits and
  coordinates beyond the screen are rejected with an \<open>OperationalError\<close>.
\<close>

theorem position_rejections_not_all_operational:
  "(\<exists>e. Internal_mapAction Ios \<lparr>width = 101, height = 201, devicePixelRatio = None\<rparr> mapEl
           (tapAt (PNum (Num (3 / 2)), PNum (Num (1 / 2)))) = Inl e
        \<and> cls e = JsError \<and> \<not> isOperational e)
   \<and> (\<exists>e. Internal_mapAction Ios \<lparr>width = 101, height = 201, devicePixelRatio = None\<rparr> mapEl
           (tapAt (PStr (units ''150%''), PStr (units ''50%''))) = Inl e
        \<and> cls e = JsError \<and> \<not> isOperational e)
   \<and> (\<exists>e. Internal_mapAction Ios \<lparr>width = 101, height = 201, devicePixelRatio = None\<rparr> mapEl
           (tapAt (PStr (units ''0.5''), PStr (units ''0.5''))) = Inl e
        \<and> cls e = JsError \<and> \<not> isOperational e)
   \<and> (\<exists>e. Internal_mapAction Ios \<lparr>width = 101, height = 201, devicePixelRatio = None\<rparr> mapEl
           (tapAt (PStr (units ''abc%''), PStr (units ''50%''))) = Inl e
        \<and> cls e = OperationalError \<and> isOperational e)
   \<and> (\<exists>e. Internal_mapAction Ios \<lparr>width = 101, height = 201, devicePixelRatio = None\<rparr> mapEl
           (tapAtCoordinates (Num 500, Num 10)) = Inl e
        \<and> cls e = OperationalError \<and> isOperational e)"
  by (simp add: mapper_defs parse_defs newError_def isOperational_def instanceof_def)

section \<open>Properties of the action dispatcher\<close>

subsection \<open>The log of a call\<close>

lemma prepare_timeout:
  assumes "prepare c a opts = Inr (m, t)"
  shows "t = (case opt_timeout opts of None \<Rightarrow> Num 10000 | Some v \<Rightarrow> v)
         \<and> \<not> js_isNaN t \<and> \<not> js_lt t (Num 0)"
  using assms
  by (auto simp: prepare_def Let_def split: if_splits sum.splits option.splits)

lemma eventsOf_tl: "eventsOf (tl envs) k = eventsOf envs (Suc k)"
  by (cases envs) (simp_all add: eventsOf_def)

lemma retryable_Num:
  "retryable (js_max (Num 0) (js_sub (Num t) MAX_APP_RECORDER_TIMEOUT)) e
     = (10000 < t \<and> \<not> instanceof e ActionTimeoutError \<and> \<not> instanceof e ActionInternalError)"
  by (auto simp: retryable_def MAX_APP_RECORDER_TIMEOUT_def js_sub_def js_gt_def)

lemma remaining_Num:
  "10000 < t \<Longrightarrow> js_max (Num 0) (js_sub (Num t) MAX_APP_RECORDER_TIMEOUT) = Num (t - 10000)"
  by (simp add: MAX_APP_RECORDER_TIMEOUT_def js_sub_def)

text \<open>The log of a call with a finite timeout \<open>t\<close>: attempt \<open>k\<close> has the id \<open>n + k\<close> and
  the budget \<open>t - 10000 k\<close>.\<close>

lemma playAction_log:
  assumes "opt_timeout opts = Some (Num t)" "k < length (snd (playAction c a opts n envs))"
  shows "sent_id (snd (playAction c a opts n envs) ! k) = n + k
       \<and> hardTimeout (snd (playAction c a opts n envs) ! k) = Num (t - 10000 * real k + 10000)
       \<and> sent_timeout (snd (playAction c a opts n envs) ! k)
           = js_round (js_div (js_min (Num (t - 10000 * real k)) (Num 10000)) (Num 1000))
       \<and> 0 \<le> t - 10000 * real k \<and> (0 < k \<longrightarrow> 0 < t - 10000 * real k)"
  using assms
proof (induction c a opts n envs arbitrary: t k rule: playAction.induct)
  case (1 c a opts n envs)
  show ?case
  proof (cases "prepare c a opts")
    case (Inl e)
    with "1.prems"(2) show ?thesis by (simp add: playAction.simps)
  next
    case (Inr mt)
    obtain m t' where mt: "mt = (m, t')" by (cases mt)
    from prepare_timeout[of c a opts m t'] Inr mt "1.prems"(1)
    have t': "t' = Num t" and tpos: "0 \<le> t" by auto
    have att: "sent_id (mkAttempt n m (Num t)) = n"
      "hardTimeout (mkAttempt n m (Num t)) = Num (t + 10000)"
      "sent_timeout (mkAttempt n m (Num t))
         = js_round (js_div (js_min (Num t) (Num 10000)) (Num 1000))"
      by (simp_all add: mkAttempt_def MAX_APP_RECORDER_TIMEOUT_def)
    show ?thesis
    proof (cases "race n (setTimeoutDelay (hardTimeout (mkAttempt n m (Num t)))) (eventsOf envs 0)
                   :: ('a, 'b) settled")
      case (Resolved v)
      then have eq: "playAction c a opts n envs = (Inr v, [mkAttempt n m (Num t)])"
        using Inr mt t' by (simp add: playAction.simps)
      with "1.prems"(2) have "k = 0" by simp
      then show ?thesis using eq att tpos by simp
    next
      case (Rejected e)
      show ?thesis
      proof (cases "retryable (js_max (Num 0) (js_sub (Num t) MAX_APP_RECORDER_TIMEOUT)) e")
        case False
        then have eq: "playAction c a opts n envs = (Inl e, [mkAttempt n m (Num t)])"
          using Inr mt t' Rejected by (simp add: playAction.simps)
        with "1.prems"(2) have "k = 0" by simp
        then show ?thesis using eq att tpos by simp
      next
        case True
        then have big: "10000 < t" by (simp add: retryable_Num)
        let ?opts = "opts\<lparr>opt_timeout := Some (js_max (Num 0) (js_sub (Num t) MAX_APP_RECORDER_TIMEOUT))\<rparr>"
        let ?rec = "playAction c a ?opts (Suc n) (tl envs) :: ('a error + 'b) \<times> 'a attempt list"
        have eq: "playAction c a opts n envs = (fst ?rec, mkAttempt n m (Num t) # snd ?rec)"
          using Inr mt t' Rejected True
          by (simp add: playAction.simps[of c a opts n envs] split: prod.splits)
        have ot: "opt_timeout ?opts = Some (Num (t - 10000))"
          using big by (simp add: remaining_Num)
        show ?thesis
        proof (cases k)
          case 0
          then show ?thesis using eq att tpos by simp
        next
          case (Suc j)
          with "1.prems"(2) eq have j: "j < length (snd ?rec)" by simp
          have pr: "prepare c a opts = Inr (m, Num t)" using Inr mt t' by simp
          from "1.IH"[OF pr refl Rejected True ot j]
          have "sent_id (snd ?rec ! j) = Suc n + j
             \<and> hardTimeout (snd ?rec ! j) = Num (t - 10000 - 10000 * real j + 10000)
             \<and> sent_timeout (snd ?rec ! j)
                 = js_round (js_div (js_min (Num (t - 10000 - 10000 * real j)) (Num 10000)) (Num 1000))
             \<and> 0 \<le> t - 10000 - 10000 * real j \<and> (0 < j \<longrightarrow> 0 < t - 10000 - 10000 * real j)"
            by simp
          moreover have "t - 10000 - 10000 * real j = t - 10000 * real (Suc j)"
            by (simp add: algebra_simps)
          moreover have "0 < t - 10000 - 10000 * real j"
            using calculation big by (cases j) auto
          ultimately show ?thesis using eq Suc by simp
        qed
      qed
    qed
  qed
qed


lemma prepare_retimed:
  assumes "prepare c a opts = Inr (m, t)" "\<not> js_isNaN t'" "\<not> js_lt t' (Num 0)"
  shows "prepare c a (opts\<lparr>opt_timeout := Some t'\<rparr>) = Inr (m, t')"
  using assms
  by (auto simp: prepare_def Let_def split: if_splits sum.splits option.splits)

lemma js_gt_zero: "js_gt r (Num 0) \<Longrightarrow> \<not> js_isNaN r \<and> \<not> js_lt r (Num 0)"
  by (cases r) (auto simp: js_gt_def)

lemma playAction_nonempty:
  assumes "prepare c a opts = Inr (m, t)"
  shows "snd (playAction c a opts n envs) \<noteq> []"
  using assms
  by (simp add: playAction.simps[of c a opts n envs] split: settled.splits prod.splits)

text \<open>The call returns or throws what its last attempt settled to.\<close>

lemma playAction_result:
  assumes "snd (playAction c a opts n envs) \<noteq> []"
  shows "race (n + (length (snd (playAction c a opts n envs)) - 1))
              (setTimeoutDelay (hardTimeout (last (snd (playAction c a opts n envs)))))
              (eventsOf envs (length (snd (playAction c a opts n envs)) - 1))
         = (case fst (playAction c a opts n envs) of
              Inl e \<Rightarrow> Rejected e | Inr v \<Rightarrow> Resolved v)"
  using assms
proof (induction c a opts n envs rule: playAction.induct)
  case (1 c a opts n envs)
  show ?case
  proof (cases "prepare c a opts")
    case (Inl e)
    with "1.prems" show ?thesis by (simp add: playAction.simps)
  next
    case (Inr mt)
    obtain m t where mt: "mt = (m, t)" by (cases mt)
    have pr: "prepare c a opts = Inr (m, t)" using Inr mt by simp
    have att: "hardTimeout (mkAttempt n m t) = js_add t (Num 10000)"
      by (simp add: mkAttempt_def)
    show ?thesis
    proof (cases "race n (setTimeoutDelay (hardTimeout (mkAttempt n m t))) (eventsOf envs 0)
                   :: ('a, 'b) settled")
      case (Resolved v)
      then have eq: "playAction c a opts n envs = (Inr v, [mkAttempt n m t])"
        using pr by (simp add: playAction.simps)
      show ?thesis using Resolved att by (simp add: eq)
    next
      case (Rejected e)
      show ?thesis
      proof (cases "retryable (js_max (Num 0) (js_sub t MAX_APP_RECORDER_TIMEOUT)) e")
        case False
        then have eq: "playAction c a opts n envs = (Inl e, [mkAttempt n m t])"
          using pr Rejected by (simp add: playAction.simps)
        show ?thesis using Rejected att by (simp add: eq)
      next
        case True
        let ?rem = "js_max (Num 0) (js_sub t MAX_APP_RECORDER_TIMEOUT)"
        let ?opts = "opts\<lparr>opt_timeout := Some ?rem\<rparr>"
        let ?rec = "playAction c a ?opts (Suc n) (tl envs) :: ('a error + 'b) \<times> 'a attempt list"
        have eq: "playAction c a opts n envs = (fst ?rec, mkAttempt n m t # snd ?rec)"
          using pr Rejected True
          by (simp add: playAction.simps[of c a opts n envs] split: prod.splits)
        have "js_gt ?rem (Num 0)" using True by (simp add: retryable_def)
        then have "prepare c a ?opts = Inr (m, ?rem)"
          using prepare_retimed[OF pr] js_gt_zero by blast
        then have ne: "snd ?rec \<noteq> []" by (rule playAction_nonempty)
        from "1.IH"[OF pr refl Rejected True ne]
        have "race (Suc n + (length (snd ?rec) - 1))
                (setTimeoutDelay (hardTimeout (last (snd ?rec))))
                (eventsOf (tl envs) (length (snd ?rec) - 1))
              = (case fst ?rec of Inl e \<Rightarrow> Rejected e | Inr v \<Rightarrow> Resolved v)" .
        moreover have "Suc n + (length (snd ?rec) - 1) = n + length (snd ?rec)"
          using ne by (cases "snd ?rec") simp_all
        moreover have "Suc (length (snd ?rec) - 1) = length (snd ?rec)"
          using ne by (cases "snd ?rec") simp_all
        ultimately show ?thesis using ne by (simp add: eq eventsOf_tl)
      qed
    qed
  qed
qed

lemma race_notFound_first:
  assumes "tm < d" "playbackId r = Some pid" "errorId r = ''notFound''"
  shows "race pid d ((tm, PlaybackError r) # rest)
         = (Rejected (new_ActionElementNotFoundError r) :: ('e, 'r) settled)"
  using assms by (simp add: classify_def)

subsection \<open>Evaluating the concrete runs\<close>

lemma demo_prepare:
  "0 \<le> t \<Longrightarrow> prepare demoCtx demoTap (withTimeout t) = Inr (tapAtCoordinates (Num 50, Num 100), Num t)"
  by (simp add: prepare_def demoCtx_def demoTap_def withTimeout_def tapAt_def
      tapAtCoordinates_def Internal_mapAction_def mapPosition_def parsePositionValue_def
      isValidNumber_def isPositionWithinBounds_def getCoordinates_def outBounds_def js_gt_def
      mapLocalPosition_def checkDuration_def)

lemma demo_opts: "(withTimeout t)\<lparr>opt_timeout := Some (Num t')\<rparr> = withTimeout t'"
  by (simp add: withTimeout_def)

lemmas play_eval = playAction.simps demo_prepare eventsOf_def setTimeoutDelay_def classify_def
  errorResponse_def retryable_def js_gt_def MAX_APP_RECORDER_TIMEOUT_def js_sub_def demo_opts
  instanceof_def new_ActionElementNotFoundError_def new_ActionInvalidArgumentError_def
  new_ActionTimeoutError_def actionError_def numeral_2_eq_2 mkAttempt_def

subsection \<open>A timeout of 25 seconds\<close>

text \<open>
  Claim C1. With \<open>timeout = 25000\<close> a call makes at most three attempts. The timeouts
  sent to the remote are 10, 10 and 5 seconds, in this order; the attempts carry the ids
  \<open>n\<close>, \<open>n + 1\<close>, \<open>n + 2\<close> that the id counter hands out, each new; the budgets they run on
  are 25000, 15000 and 5000 milliseconds (the hard timeouts are the budgets plus 10000).
  When the third attempt is answered by a \<open>notFound\<close> error, the call throws the
  \<open>ActionElementNotFoundError\<close> made from that answer.
\<close>

theorem playAction_25000:
  fixes c :: "'e session_ctx" and envs :: "(real \<times> ('e, 'r) playback_event) list list"
  assumes o: "opt_timeout opts = Some (Num 25000)"
  shows "length (snd (playAction c a opts n envs)) \<le> 3
     \<and> map sent_timeout (snd (playAction c a opts n envs))
         = take (length (snd (playAction c a opts n envs))) [Num 10, Num 10, Num 5]
     \<and> map hardTimeout (snd (playAction c a opts n envs))
         = take (length (snd (playAction c a opts n envs))) [Num 35000, Num 25000, Num 15000]
     \<and> map sent_id (snd (playAction c a opts n envs))
         = [n ..< n + length (snd (playAction c a opts n envs))]
     \<and> (length (snd (playAction c a opts n envs)) = 3
         \<and> eventsOf envs 2 = (tm, PlaybackError r) # rest \<and> tm < 15000
         \<and> playbackId r = Some (n + 2) \<and> errorId r = ''notFound''
        \<longrightarrow> fst (playAction c a opts n envs) = Inl (new_ActionElementNotFoundError r)
            \<and> cls (new_ActionElementNotFoundError r) = ActionElementNotFoundError)"
proof -
  let ?res = "playAction c a opts n envs"
  let ?log = "snd ?res"
  note L = playAction_log[OF o, of _ c a n envs]
  have len: "length ?log \<le> 3"
  proof (rule ccontr)
    assume "\<not> length ?log \<le> 3"
    then have "3 < length ?log" by simp
    from L[OF this] show False by simp
  qed
  have k3: "\<And>k. k < length ?log \<Longrightarrow> k = 0 \<or> k = 1 \<or> k = 2" using len by auto
  have st: "map sent_timeout ?log = take (length ?log) [Num 10, Num 10, Num 5]"
  proof (rule nth_equalityI)
    show "length (map sent_timeout ?log) = length (take (length ?log) [Num 10, Num 10, Num 5])"
      using len by simp
  next
    fix k assume "k < length (map sent_timeout ?log)"
    then have k: "k < length ?log" by simp
    from k3[OF k] L[OF k] k show "map sent_timeout ?log ! k = take (length ?log) [Num 10, Num 10, Num 5] ! k"
      by auto
  qed
  have ht: "map hardTimeout ?log = take (length ?log) [Num 35000, Num 25000, Num 15000]"
  proof (rule nth_equalityI)
    show "length (map hardTimeout ?log) = length (take (length ?log) [Num 35000, Num 25000, Num 15000])"
      using len by simp
  next
    fix k assume "k < length (map hardTimeout ?log)"
    then have k: "k < length ?log" by simp
    from k3[OF k] L[OF k] k show "map hardTimeout ?log ! k = take (length ?log) [Num 35000, Num 25000, Num 15000] ! k"
      by auto
  qed
  have ids: "map sent_id ?log = [n ..< n + length ?log]"
  proof (rule nth_equalityI)
    show "length (map sent_id ?log) = length [n ..< n + length ?log]" by simp
  next
    fix k assume "k < length (map sent_id ?log)"
    then have k: "k < length ?log" by simp
    from L[OF k] k show "map sent_id ?log ! k = [n ..< n + length ?log] ! k" by simp
  qed
  have last: "length ?log = 3 \<and> eventsOf envs 2 = (tm, PlaybackError r) # rest \<and> tm < 15000
         \<and> playbackId r = Some (n + 2) \<and> errorId r = ''notFound''
        \<longrightarrow> fst ?res = Inl (new_ActionElementNotFoundError r)
            \<and> cls (new_ActionElementNotFoundError r) = ActionElementNotFoundError"
  proof (intro impI)
    assume a: "length ?log = 3 \<and> eventsOf envs 2 = (tm, PlaybackError r) # rest \<and> tm < 15000
         \<and> playbackId r = Some (n + 2) \<and> errorId r = ''notFound''"
    then have ne: "?log \<noteq> []" by auto
    have "last ?log = ?log ! (length ?log - 1)" using ne by (rule last_conv_nth)
    then have "last ?log = ?log ! 2" using a by simp
    then have h: "hardTimeout (last ?log) = Num 15000" using L[of 2] a by simp
    from playAction_result[OF ne] a h
    have "race (n + 2) 15000 ((tm, PlaybackError r) # rest)
        = (case fst ?res of Inl e \<Rightarrow> Rejected e | Inr v \<Rightarrow> Resolved v)"
      by (simp add: setTimeoutDelay_def)
    then have "fst ?res = Inl (new_ActionElementNotFoundError r)"
      using race_notFound_first[of tm 15000 r "n + 2" rest] a
      by (auto split: sum.splits)
    then show "fst ?res = Inl (new_ActionElementNotFoundError r)
            \<and> cls (new_ActionElementNotFoundError r) = ActionElementNotFoundError"
      by (simp add: new_ActionElementNotFoundError_def actionError_def)
  qed
  from len st ht ids last show ?thesis by blast
qed

theorem playAction_25000_witness:
  "opt_timeout (withTimeout 25000) = Some (Num 25000)
   \<and> length (snd (playAction demoCtx demoTap (withTimeout 25000) 0 notFoundThrice)) = 3
   \<and> eventsOf notFoundThrice 2 = (100, PlaybackError (errorResponse ''notFound'' 2)) # []
   \<and> (100 :: real) < 15000
   \<and> playbackId (errorResponse ''notFound'' 2) = Some (0 + 2)
   \<and> errorId (errorResponse ''notFound'' 2) = ''notFound''
   \<and> fst (playAction demoCtx demoTap (withTimeout 25000) 0 notFoundThrice)
       = Inl (new_ActionElementNotFoundError (errorResponse ''notFound'' 2))
   \<and> map sent_timeout (snd (playAction demoCtx demoTap (withTimeout 25000) 0 notFoundThrice))
       = [Num 10, Num 10, Num 5]
   \<and> map hardTimeout (snd (playAction demoCtx demoTap (withTimeout 25000) 0 notFoundThrice))
       = [Num 35000, Num 25000, Num 15000]
   \<and> map sent_id (snd (playAction demoCtx demoTap (withTimeout 25000) 0 notFoundThrice))
       = [0, 1, 2]"
proof -
  have o: "opt_timeout (withTimeout 25000) = Some (Num 25000)"
    by (simp add: withTimeout_def)
  have len: "length (snd (playAction demoCtx demoTap (withTimeout 25000) 0 notFoundThrice)) = 3"
    by (simp add: play_eval notFoundThrice_def)
  have ev: "eventsOf notFoundThrice 2 = (100, PlaybackError (errorResponse ''notFound'' 2)) # []"
    by (simp add: eventsOf_def notFoundThrice_def)
  have r: "playbackId (errorResponse ''notFound'' 2) = Some (0 + 2)"
    "errorId (errorResponse ''notFound'' 2) = ''notFound''"
    by (simp_all add: errorResponse_def)
  have up: "[0 ..< 3] = [0, 1, 2 :: nat]" by (simp add: upt_rec)
  from playAction_25000[OF o, of demoCtx demoTap 0 notFoundThrice 100
      "errorResponse ''notFound'' 2" "[]"] o len ev r up
  show ?thesis by simp
qed

subsection \<open>One attempt\<close>

text \<open>The delay of the hard timeout, while it fits the timer.\<close>

lemma timer_delay:
  assumes "0 \<le> t" and "t + 10000 \<le> 2147483647"
  shows "setTimeoutDelay (hardTimeout (mkAttempt n m (Num t))) = of_int \<lfloor>t + 10000\<rfloor>"
  using assms by (simp add: setTimeoutDelay_def mkAttempt_def)

lemma prepared_delay:
  assumes "prepare c a opts = Inr (m, Num t)" and "t + 10000 \<le> 2147483647"
  shows "setTimeoutDelay (hardTimeout (mkAttempt n m (Num t))) = of_int \<lfloor>t + 10000\<rfloor>"
  using prepare_timeout[OF assms(1)] assms(2) by (intro timer_delay) simp_all

text \<open>The race passes over the events that arrive before the timer fires and do not
  answer the attempt; the first event that answers it in time settles it; an event that
  arrives when the timer has fired, or no event, leaves the timeout.\<close>

lemma race_skips:
  assumes "\<forall>(tm', ev') \<in> set pre. tm' < d \<and> \<not> answers pid ev'"
  shows "race pid d (pre @ evs) = race pid d evs"
  using assms
proof (induction pre)
  case Nil
  show ?case by simp
next
  case (Cons x pre)
  obtain tm ev where x: "x = (tm, ev)" by (cases x)
  from Cons.prems have here: "tm < d" "\<not> answers pid ev"
    and rest: "\<forall>(tm', ev') \<in> set pre. tm' < d \<and> \<not> answers pid ev'"
    by (simp_all add: x)
  have "race pid d (x # pre @ evs) = race pid d (pre @ evs)"
    using here x by (auto simp: answers_def split: playback_event.splits)
  then show ?case using Cons.IH[OF rest] by simp
qed


lemma race_error:
  assumes "\<forall>(tm', ev') \<in> set pre. tm' < d \<and> \<not> answers pid ev'" and "tm < d"
    and "playbackId r = Some pid"
  shows "race pid d (pre @ (tm, PlaybackError r) # post) = Rejected (classify r)"
  using assms by (simp add: race_skips)



text \<open>Which errors the retry takes: never the timeout of an attempt, and of the errors
  made from a response all but the one of \<open>internalError\<close>.\<close>

lemma timeout_never_retried: "\<not> retryable r (new_ActionTimeoutError pid m)"
  by (simp add: retryable_def instanceof_def new_ActionTimeoutError_def)

lemma classify_retryable:
  "retryable (js_max (Num 0) (js_sub (Num t) MAX_APP_RECORDER_TIMEOUT)) (classify r)
     = (10000 < t \<and> errorId r \<noteq> ''internalError'')"
  by (simp add: retryable_Num classify_def instanceof_def new_ActionInternalError_def
      new_ActionElementNotFoundError_def new_ActionAmbiguousElementError_def
      new_ActionInvalidArgumentError_def new_ActionError_def actionError_def)


lemma playAction_thrown:
  assumes "prepare c a opts = Inr (m, t)"
    and "race n (setTimeoutDelay (hardTimeout (mkAttempt n m t))) (eventsOf envs 0) = Rejected e"
    and "\<not> retryable (js_max (Num 0) (js_sub t MAX_APP_RECORDER_TIMEOUT)) e"
  shows "playAction c a opts n envs = (Inl e, [mkAttempt n m t])"
  using assms by (simp add: playAction.simps[of c a opts n envs])

lemma playAction_retried:
  assumes "prepare c a opts = Inr (m, Num t)"
    and "race n (setTimeoutDelay (hardTimeout (mkAttempt n m (Num t)))) (eventsOf envs 0)
           = Rejected e"
    and "retryable (js_max (Num 0) (js_sub (Num t) MAX_APP_RECORDER_TIMEOUT)) e"
  shows "playAction c a opts n envs
       = (case playAction c a (opts\<lparr>opt_timeout := Some (Num (t - 10000))\<rparr>) (Suc n) (tl envs)
          of (res, atts) \<Rightarrow> (res, mkAttempt n m (Num t) # atts))"
proof -
  have big: "10000 < t" using assms(3) by (simp add: retryable_Num)
  have rem: "js_max (Num 0) (js_sub (Num t) MAX_APP_RECORDER_TIMEOUT) = Num (t - 10000)"
    using big by (rule remaining_Num)
  have retry: "retryable (Num (t - 10000)) e" using assms(3) by (simp only: rem)
  show ?thesis
    using assms(1,2) retry by (simp add: playAction.simps[of c a opts n envs] rem)
qed



subsection \<open>An \<open>invalidArgument\<close> answer\<close>

text \<open>
  Claim C2, as amended. Take a call whose timeout \<open>t\<close> makes a hard timeout \<open>t + 10000\<close>
  that the timer can take (at most 2147483647), and an attempt that is answered by an error
  response before that timer fires, which is after the whole milliseconds of \<open>t + 10000\<close>.
  When the \<open>errorId\<close> is \<open>invalidArgument\<close> the attempt is rejected with an
  \<open>ActionInvalidArgumentError\<close>; its message is the response's, except that a response
  whose message says \<open>outside the screen bounds\<close> gives a message about the
  \<open>localPosition\<close> when the action has one, and \<open>Element is outside of screen bounds.\<close>
  when it has none. The call throws that error at once when its timeout is at most 10000;
  with a longer timeout the call tries again, with a new id and the timeout less 10000,
  and returns what that call returns. So it is for every \<open>errorId\<close> but \<open>internalError\<close>,
  whose error the call throws at once whatever the timeout; and the retry never takes the
  \<open>ActionTimeoutError\<close> of an attempt.
\<close>

theorem invalidArgument_retried_within_budget:
  fixes c :: "'e session_ctx" and envs :: "(real \<times> ('e, 'r) playback_event) list list"
  assumes "prepare c a opts = Inr (m, Num t)" and "t + 10000 \<le> 2147483647"
    and "eventsOf envs 0 = pre @ (tm, PlaybackError r) # rest"
    and "\<forall>(tm', ev') \<in> set pre. tm' < of_int \<lfloor>t + 10000\<rfloor> \<and> \<not> answers n ev'"
    and "tm < of_int \<lfloor>t + 10000\<rfloor>" and "playbackId r = Some n"
  shows "(errorId r = ''invalidArgument'' \<and> t \<le> 10000 \<longrightarrow>
            playAction c a opts n envs
              = (Inl (new_ActionInvalidArgumentError r), [mkAttempt n m (Num t)]))
     \<and> (errorId r = ''invalidArgument'' \<and> 10000 < t \<longrightarrow>
            playAction c a opts n envs
              = (case playAction c a (opts\<lparr>opt_timeout := Some (Num (t - 10000))\<rparr>) (Suc n)
                        (tl envs)
                 of (res, atts) \<Rightarrow> (res, mkAttempt n m (Num t) # atts)))
     \<and> cls (new_ActionInvalidArgumentError r) = ActionInvalidArgumentError
     \<and> (str_match ''outside the screen bounds'' (message r)
          \<and> localPosition (playbackAction r) = Some (lx, ly)
        \<longrightarrow> msg (new_ActionInvalidArgumentError r)
              = [Txt ''localPosition ('', posPiece lx, Txt '', '', posPiece ly,
                 Txt '') for the element evaluates to a coordinate outside of screen bounds.''])
     \<and> (str_match ''outside the screen bounds'' (message r)
          \<and> localPosition (playbackAction r) = None
        \<longrightarrow> msg (new_ActionInvalidArgumentError r) = [Txt ''Element is outside of screen bounds.''])
     \<and> (\<not> str_match ''outside the screen bounds'' (message r)
        \<longrightarrow> msg (new_ActionInvalidArgumentError r) = [Txt (message r)])
     \<and> (errorId r \<noteq> ''internalError'' \<and> 10000 < t \<longrightarrow>
            playAction c a opts n envs
              = (case playAction c a (opts\<lparr>opt_timeout := Some (Num (t - 10000))\<rparr>) (Suc n)
                        (tl envs)
                 of (res, atts) \<Rightarrow> (res, mkAttempt n m (Num t) # atts)))
     \<and> (errorId r = ''internalError'' \<longrightarrow>
            playAction c a opts n envs
              = (Inl (new_ActionInternalError r), [mkAttempt n m (Num t)]))
     \<and> (\<forall>remaining pid ms. \<not> retryable remaining (new_ActionTimeoutError pid ms :: 'e error))"
proof -
  have d: "setTimeoutDelay (hardTimeout (mkAttempt n m (Num t))) = of_int \<lfloor>t + 10000\<rfloor>"
    using assms(1,2) by (rule prepared_delay)
  have rc: "race n (setTimeoutDelay (hardTimeout (mkAttempt n m (Num t)))) (eventsOf envs 0)
              = (Rejected (classify r) :: ('e, 'r) settled)"
    unfolding d assms(3) using assms(4,5,6) by (rule race_error)
  have retried: "errorId r \<noteq> ''internalError'' \<and> 10000 < t \<longrightarrow>
            playAction c a opts n envs
              = (case playAction c a (opts\<lparr>opt_timeout := Some (Num (t - 10000))\<rparr>) (Suc n)
                        (tl envs)
                 of (res, atts) \<Rightarrow> (res, mkAttempt n m (Num t) # atts))"
    using playAction_retried[OF assms(1) rc] by (simp only: classify_retryable) blast
  have thrown: "errorId r = ''internalError'' \<or> t \<le> 10000 \<longrightarrow>
            playAction c a opts n envs = (Inl (classify r), [mkAttempt n m (Num t)])"
    using playAction_thrown[OF assms(1) rc] by (simp only: classify_retryable) auto
  have inv: "errorId r = ''invalidArgument'' \<longrightarrow> classify r = new_ActionInvalidArgumentError r"
    by (simp add: classify_def)
  have int: "errorId r = ''internalError'' \<longrightarrow> classify r = new_ActionInternalError r"
    by (simp add: classify_def)
  have ne: "errorId r = ''invalidArgument'' \<longrightarrow> errorId r \<noteq> ''internalError''"
    by auto
  have c1: "errorId r = ''invalidArgument'' \<and> t \<le> 10000 \<longrightarrow>
            playAction c a opts n envs
              = (Inl (new_ActionInvalidArgumentError r), [mkAttempt n m (Num t)])"
    using thrown inv by auto
  have c2: "errorId r = ''invalidArgument'' \<and> 10000 < t \<longrightarrow>
            playAction c a opts n envs
              = (case playAction c a (opts\<lparr>opt_timeout := Some (Num (t - 10000))\<rparr>) (Suc n)
                        (tl envs)
                 of (res, atts) \<Rightarrow> (res, mkAttempt n m (Num t) # atts))"
    using retried ne by blast
  have c3: "errorId r = ''internalError'' \<longrightarrow>
            playAction c a opts n envs
              = (Inl (new_ActionInternalError r), [mkAttempt n m (Num t)])"
    using thrown int by auto
  have c4: "\<forall>remaining pid ms. \<not> retryable remaining (new_ActionTimeoutError pid ms :: 'e error)"
    by (simp add: timeout_never_retried)
  have ms: "cls (new_ActionInvalidArgumentError r) = ActionInvalidArgumentError
     \<and> (str_match ''outside the screen bounds'' (message r)
          \<and> localPosition (playbackAction r) = Some (lx, ly)
        \<longrightarrow> msg (new_ActionInvalidArgumentError r)
              = [Txt ''localPosition ('', posPiece lx, Txt '', '', posPiece ly,
                 Txt '') for the element evaluates to a coordinate outside of screen bounds.''])
     \<and> (str_match ''outside the screen bounds'' (message r)
          \<and> localPosition (playbackAction r) = None
        \<longrightarrow> msg (new_ActionInvalidArgumentError r) = [Txt ''Element is outside of screen bounds.''])
     \<and> (\<not> str_match ''outside the screen bounds'' (message r)
        \<longrightarrow> msg (new_ActionInvalidArgumentError r) = [Txt (message r)])"
    by (simp add: new_ActionInvalidArgumentError_def actionError_def)
  from c1 c2 ms retried c3 c4 show ?thesis by blast
qed

text \<open>The claim as it was stated, that the call fails at once and is never retried, is
  false: with \<open>timeout = 25000\<close> an \<open>invalidArgument\<close> answer to the first attempt is
  followed by a second attempt, and when that one succeeds the call returns its result.\<close>

theorem invalidArgument_terminal_counterexample:
  "playAction demoCtx demoTap (withTimeout 25000) 0 invalidThenFound
   = (Inr (),
      [mkAttempt 0 (tapAtCoordinates (Num 50, Num 100)) (Num 25000),
       mkAttempt 1 (tapAtCoordinates (Num 50, Num 100)) (Num 15000)])"
  by (simp add: play_eval invalidThenFound_def)

theorem invalidArgument_retried_within_budget_witness:
  "prepare demoCtx demoTap (withTimeout 10000) = Inr (tapAtCoordinates (Num 50, Num 100), Num 10000)
   \<and> (10000 + 10000 :: real) \<le> 2147483647
   \<and> eventsOf [[(100, PlaybackError (errorResponse ''invalidArgument'' 0))]] 0
       = [] @ (100, PlaybackError (errorResponse ''invalidArgument'' 0)
                 :: (unit, unit) playback_event) # []
   \<and> (100 :: real) < of_int \<lfloor>10000 + 10000 :: real\<rfloor>
   \<and> playbackId (errorResponse ''invalidArgument'' 0) = Some 0
   \<and> errorId (errorResponse ''invalidArgument'' 0) = ''invalidArgument''
   \<and> \<not> str_match ''outside the screen bounds'' (message (errorResponse ''invalidArgument'' 0))
   \<and> (10000 :: real) \<le> 10000
   \<and> msg (new_ActionInvalidArgumentError (errorResponse ''invalidArgument'' 0)) = [Txt ''failed'']
   \<and> playAction demoCtx demoTap (withTimeout 10000) 0
         [[(100, PlaybackError (errorResponse ''invalidArgument'' 0))]]
       = (Inl (new_ActionInvalidArgumentError (errorResponse ''invalidArgument'' 0))
            :: unit error + unit,
          [mkAttempt 0 (tapAtCoordinates (Num 50, Num 100)) (Num 10000)])
   \<and> prepare demoCtx demoTap (withTimeout 25000) = Inr (tapAtCoordinates (Num 50, Num 100), Num 25000)
   \<and> (25000 + 10000 :: real) \<le> 2147483647
   \<and> eventsOf [strangersFirst
                @ [(100, PlaybackError (outsideBoundsResponse (Some (PNum (Num 2), PNum (Num 2))) 0))]] 0
       = strangersFirst
         @ (100, PlaybackError (outsideBoundsResponse (Some (PNum (Num 2), PNum (Num 2))) 0)) # []
   \<and> list_all (\<lambda>(tm', ev'). tm' < of_int \<lfloor>25000 + 10000 :: real\<rfloor> \<and> \<not> answers 0 ev') strangersFirst
   \<and> str_match ''outside the screen bounds''
         (message (outsideBoundsResponse (Some (PNum (Num 2), PNum (Num 2))) 0))
   \<and> localPosition (playbackAction (outsideBoundsResponse (Some (PNum (Num 2), PNum (Num 2))) 0))
       = Some (PNum (Num 2), PNum (Num 2))
   \<and> msg (new_ActionInvalidArgumentError
             (outsideBoundsResponse (Some (PNum (Num 2), PNum (Num 2))) 0))
       = [Txt ''localPosition ('', NumP (Num 2), Txt '', '', NumP (Num 2),
          Txt '') for the element evaluates to a coordinate outside of screen bounds.'']
   \<and> errorId (outsideBoundsResponse (Some (PNum (Num 2), PNum (Num 2))) 0) \<noteq> ''internalError''
   \<and> (10000 :: real) < 25000
   \<and> playAction demoCtx demoTap (withTimeout 25000) 0
         [strangersFirst
          @ [(100, PlaybackError (outsideBoundsResponse (Some (PNum (Num 2), PNum (Num 2))) 0))]]
       = (Inl (new_ActionTimeoutError 1 [Txt ''Timed out waiting for response from device''])
            :: unit error + unit,
          [mkAttempt 0 (tapAtCoordinates (Num 50, Num 100)) (Num 25000),
           mkAttempt 1 (tapAtCoordinates (Num 50, Num 100)) (Num 15000)])
   \<and> localPosition (playbackAction (outsideBoundsResponse None 0)) = None
   \<and> msg (new_ActionInvalidArgumentError (outsideBoundsResponse None 0))
       = [Txt ''Element is outside of screen bounds.'']
   \<and> errorId (errorResponse ''internalError'' 0) = ''internalError''
   \<and> playAction demoCtx demoTap (withTimeout 25000) 0
         [[(100, PlaybackError (errorResponse ''internalError'' 0))]]
       = (Inl (new_ActionInternalError (errorResponse ''internalError'' 0)) :: unit error + unit,
          [mkAttempt 0 (tapAtCoordinates (Num 50, Num 100)) (Num 25000)])"
proof -
  let ?r1 = "errorResponse ''invalidArgument'' 0"
  let ?r2 = "outsideBoundsResponse (Some (PNum (Num 2), PNum (Num 2))) 0"
  let ?r3 = "outsideBoundsResponse None 0"
  let ?r4 = "errorResponse ''internalError'' 0"
  have p1: "prepare demoCtx demoTap (withTimeout 10000)
              = Inr (tapAtCoordinates (Num 50, Num 100), Num 10000)"
    and p2: "prepare demoCtx demoTap (withTimeout 25000)
              = Inr (tapAtCoordinates (Num 50, Num 100), Num 25000)"
    by (simp_all add: demo_prepare)
  have b1: "(10000 + 10000 :: real) \<le> 2147483647" and b2: "(25000 + 10000 :: real) \<le> 2147483647"
    by simp_all
  have e1: "eventsOf [[(100, PlaybackError ?r1)]] 0
       = [] @ (100, PlaybackError ?r1 :: (unit, unit) playback_event) # []"
    and e2: "eventsOf [strangersFirst @ [(100, PlaybackError ?r2)]] 0
       = strangersFirst @ (100, PlaybackError ?r2) # []"
    and e3: "eventsOf [[(100, PlaybackError ?r3)]] 0
       = [] @ (100, PlaybackError ?r3 :: (unit, unit) playback_event) # []"
    and e4: "eventsOf [[(100, PlaybackError ?r4)]] 0
       = [] @ (100, PlaybackError ?r4 :: (unit, unit) playback_event) # []"
    by (simp_all add: eventsOf_def)
  have s0: "\<forall>(tm', ev') \<in> set []. tm' < (t :: real) \<and> \<not> answers (0 :: nat) (ev' :: (unit, unit) playback_event)" for t
    by simp
  have s2: "\<forall>(tm', ev') \<in> set strangersFirst. tm' < of_int \<lfloor>25000 + 10000 :: real\<rfloor> \<and> \<not> answers 0 ev'"
    by (simp add: strangersFirst_def answers_def errorResponse_def)
  have f1: "playbackId ?r1 = Some 0" "errorId ?r1 = ''invalidArgument''"
    "\<not> str_match ''outside the screen bounds'' (message ?r1)" "message ?r1 = ''failed''"
    by (simp_all add: errorResponse_def)
  have f2: "playbackId ?r2 = Some 0" "errorId ?r2 = ''invalidArgument''"
    "str_match ''outside the screen bounds'' (message ?r2)"
    "localPosition (playbackAction ?r2) = Some (PNum (Num 2), PNum (Num 2))"
    "errorId ?r2 \<noteq> ''internalError''"
    by (simp_all add: outsideBoundsResponse_def)
  have f3: "playbackId ?r3 = Some 0" "errorId ?r3 = ''invalidArgument''"
    "str_match ''outside the screen bounds'' (message ?r3)"
    "localPosition (playbackAction ?r3) = None"
    by (simp_all add: outsideBoundsResponse_def)
  have f4: "playbackId ?r4 = Some 0" "errorId ?r4 = ''internalError''"
    by (simp_all add: errorResponse_def)
  have tail: "playAction demoCtx demoTap (withTimeout 15000) (Suc 0) []
      = (Inl (new_ActionTimeoutError 1 [Txt ''Timed out waiting for response from device''])
            :: unit error + unit,
          [mkAttempt 1 (tapAtCoordinates (Num 50, Num 100)) (Num 15000)])"
    by (simp add: play_eval)
  note a = invalidArgument_retried_within_budget[OF p1 b1 e1 s0 _ f1(1),
              where lx = "PNum (Num 2)" and ly = "PNum (Num 2)"]
    and b = invalidArgument_retried_within_budget[OF p2 b2 e2 s2 _ f2(1),
              where lx = "PNum (Num 2)" and ly = "PNum (Num 2)"]
    and c = invalidArgument_retried_within_budget[OF p1 b1 e3 s0 _ f3(1),
              where lx = "PNum (Num 2)" and ly = "PNum (Num 2)"]
    and d = invalidArgument_retried_within_budget[OF p2 b2 e4 s0 _ f4(1),
              where lx = "PNum (Num 2)" and ly = "PNum (Num 2)"]
  have s2': "list_all (\<lambda>(tm', ev'). tm' < of_int \<lfloor>25000 + 10000 :: real\<rfloor> \<and> \<not> answers 0 ev') strangersFirst"
    using s2 by (simp add: list_all_iff)
  from a b c d p1 p2 e1 e2 s2' f1 f2 f3 f4 tail show ?thesis
    by (simp add: demo_opts)
qed

subsection \<open>The race of one attempt\<close>




section \<open>Properties of the gesture path builder\<close>















section \<open>Properties of the playback errors\<close>

lemma listedElements_append [simp]:
  "listedElements (ps @ qs) = listedElements ps @ listedElements qs"
  by (simp add: listedElements_def)

lemma listedElements_Nil [simp]: "listedElements [] = []"
  by (simp add: listedElements_def)

lemma listedElements_join:
  "listedElements sep = [] \<Longrightarrow>
   listedElements (join sep xs) = concat (map listedElements xs)"
  by (induction sep xs rule: join.induct) simp_all

lemma set_join: "set (join sep xs) \<subseteq> set sep \<union> (\<Union>x \<in> set xs. set x)"
  by (induction sep xs rule: join.induct) auto

lemma concat_singletons: "concat (map (\<lambda>(i, e). [e]) ps) = map snd ps"
  by (induction ps) auto

lemma formatAmbiguousElements_split:
  "formatAmbiguousElements els
     = formatAmbiguousElements (take 5 els)
       @ (if 5 < length els
          then [Txt ''\<newline>\<newline>...and '', NumP (Num (real (length els - 5))), Txt '' more'']
          else [])"
  by (simp add: formatAmbiguousElements_def Let_def)

lemma formatAmbiguousElements_listed:
  "length els \<le> 5 \<Longrightarrow> listedElements (formatAmbiguousElements els) = els"
proof -
  assume l: "length els \<le> 5"
  have sep: "listedElements [Txt ''\<newline>\<newline>'' :: 'a piece] = []"
    by (simp add: listedElements_def)
  have "listedElements (formatAmbiguousElements els)
      = concat (map listedElements
          (map (\<lambda>(index, e). [Txt ''// '', NumP (Num (real index)), Txt ''\<newline>'',
                                JsonElement (Some e)]) (enumerate 0 els)))"
    using l by (simp add: formatAmbiguousElements_def Let_def listedElements_join[OF sep])
  also have "\<dots> = concat (map (\<lambda>(i, e). [e]) (enumerate 0 els))"
    by (simp add: comp_def listedElements_def case_prod_unfold)
  also have "\<dots> = els"
    by (simp add: concat_singletons)
  finally show ?thesis .
qed

lemma formatAmbiguousElements_no_more:
  assumes "length els \<le> 5"
  shows "Txt '' more'' \<notin> set (formatAmbiguousElements els)"
proof
  let ?entries = "map (\<lambda>(index, e). [Txt ''// '', NumP (Num (real index)),
               Txt ''\<newline>'', JsonElement (Some e)]) (enumerate 0 els)"
  assume "Txt '' more'' \<in> set (formatAmbiguousElements els)"
  then have "Txt '' more'' \<in> set (join [Txt ''\<newline>\<newline>''] ?entries)"
    using assms by (simp add: formatAmbiguousElements_def Let_def)
  then have "Txt '' more'' \<in> set [Txt ''\<newline>\<newline>''] \<union> (\<Union>x \<in> set ?entries. set x)"
    using set_join[of "[Txt ''\<newline>\<newline>'']" ?entries] by blast
  then show False by (auto simp: case_prod_unfold split: if_splits)
qed

text \<open>
  Claim C7. The message of the \<open>ActionAmbiguousElementError\<close> made from an
  \<open>ambiguousMatch\<close> response is a header with the number of matched elements followed by
  \<open>formatAmbiguousElements\<close> of them. For seven matched elements that lists the first
  five, numbered 0 to 4, and ends with \<open>...and 2 more\<close>. In general it lists exactly the
  first five matched elements (all of them when there are at most five), and it ends with
  \<open>...and N more\<close>, \<open>N\<close> the number of elements left out, exactly when more than five
  matched.
\<close>

theorem ambiguous_message_lists_five:
  "formatAmbiguousElements [e0, e1, e2, e3, e4, e5, e6]
     = [Txt ''// '', NumP (Num 0), Txt ''\<newline>'', JsonElement (Some e0), Txt ''\<newline>\<newline>'',
        Txt ''// '', NumP (Num 1), Txt ''\<newline>'', JsonElement (Some e1), Txt ''\<newline>\<newline>'',
        Txt ''// '', NumP (Num 2), Txt ''\<newline>'', JsonElement (Some e2), Txt ''\<newline>\<newline>'',
        Txt ''// '', NumP (Num 3), Txt ''\<newline>'', JsonElement (Some e3), Txt ''\<newline>\<newline>'',
        Txt ''// '', NumP (Num 4), Txt ''\<newline>'', JsonElement (Some e4),
        Txt ''\<newline>\<newline>...and '', NumP (Num 2), Txt '' more'']
   \<and> formatAmbiguousElements els
       = formatAmbiguousElements (take 5 els)
         @ (if 5 < length els
            then [Txt ''\<newline>\<newline>...and '', NumP (Num (real (length els - 5))), Txt '' more'']
            else [])
   \<and> listedElements (formatAmbiguousElements (take 5 els)) = take 5 els
   \<and> listedElements (formatAmbiguousElements els) = take 5 els
   \<and> Txt '' more'' \<notin> set (formatAmbiguousElements (take 5 els))
   \<and> classify (r\<lparr>errorId := ''ambiguousMatch''\<rparr>)
       = new_ActionAmbiguousElementError (r\<lparr>errorId := ''ambiguousMatch''\<rparr>)
   \<and> cls (new_ActionAmbiguousElementError r) = ActionAmbiguousElementError
   \<and> msg (new_ActionAmbiguousElementError r)
       = [Txt ''Action requires 1 unique element but the selector returned '',
          NumP (Num (real (length (matchedElements r)))),
          Txt (''. Provide a '' @ [CHR 0x60] @ ''matchIndex'' @ [CHR 0x60] @
               '' to pick an element below or add additional attributes to your selector.\<newline>\<newline>'')]
         @ formatAmbiguousElements (matchedElements r)"
proof (intro conjI)
  show "formatAmbiguousElements [e0, e1, e2, e3, e4, e5, e6]
     = [Txt ''// '', NumP (Num 0), Txt ''\<newline>'', JsonElement (Some e0), Txt ''\<newline>\<newline>'',
        Txt ''// '', NumP (Num 1), Txt ''\<newline>'', JsonElement (Some e1), Txt ''\<newline>\<newline>'',
        Txt ''// '', NumP (Num 2), Txt ''\<newline>'', JsonElement (Some e2), Txt ''\<newline>\<newline>'',
        Txt ''// '', NumP (Num 3), Txt ''\<newline>'', JsonElement (Some e3), Txt ''\<newline>\<newline>'',
        Txt ''// '', NumP (Num 4), Txt ''\<newline>'', JsonElement (Some e4),
        Txt ''\<newline>\<newline>...and '', NumP (Num 2), Txt '' more'']"
    by (simp add: formatAmbiguousElements_def Let_def enumerate_eq_zip upt_rec)
  show "formatAmbiguousElements els
       = formatAmbiguousElements (take 5 els)
         @ (if 5 < length els
            then [Txt ''\<newline>\<newline>...and '', NumP (Num (real (length els - 5))), Txt '' more'']
            else [])"
    by (rule formatAmbiguousElements_split)
  show t5: "listedElements (formatAmbiguousElements (take 5 els)) = take 5 els"
    by (rule formatAmbiguousElements_listed) simp
  show "listedElements (formatAmbiguousElements els) = take 5 els"
    by (subst formatAmbiguousElements_split) (simp add: t5, simp add: listedElements_def)
  show "Txt '' more'' \<notin> set (formatAmbiguousElements (take 5 els))"
    by (rule formatAmbiguousElements_no_more) simp
  show "classify (r\<lparr>errorId := ''ambiguousMatch''\<rparr>)
       = new_ActionAmbiguousElementError (r\<lparr>errorId := ''ambiguousMatch''\<rparr>)"
    by (simp add: classify_def)
  show "cls (new_ActionAmbiguousElementError r) = ActionAmbiguousElementError"
    by (simp add: new_ActionAmbiguousElementError_def actionError_def)
  show "msg (new_ActionAmbiguousElementError r)
       = [Txt ''Action requires 1 unique element but the selector returned '',
          NumP (Num (real (length (matchedElements r)))),
          Txt (''. Provide a '' @ [CHR 0x60] @ ''matchIndex'' @ [CHR 0x60] @
               '' to pick an element below or add additional attributes to your selector.\<newline>\<newline>'')]
         @ formatAmbiguousElements (matchedElements r)"
    by (simp add: new_ActionAmbiguousElementError_def actionError_def)
qed

section \<open>Properties of the session and its channel\<close>

subsection \<open>A session that has seen its disconnect\<close>
































subsection \<open>Concurrent \<open>waitForAnimations\<close> calls\<close>

lemma detectionOn_snoc:
  "detectionOn (cmds @ [c])
     = (if c = ''enablePixelChangeDetection'' then True
        else if c = ''disablePixelChangeDetection'' then False
        else detectionOn cmds)"
  by (simp add: detectionOn_def)

lemma begin_keeps:
  "waiting_implies_detection (snd (waitForAnimations_begin s))"
  by (simp add: waiting_implies_detection_def waitForAnimations_begin_def Let_def
      detectionOn_snoc)

lemma finally_keeps:
  assumes "waiting_implies_detection s"
  shows "waiting_implies_detection (snd (waitForAnimations_finally s p outcome))"
proof (cases "set_delete p (promises s) = []")
  case True
  then show ?thesis
    by (simp add: waiting_implies_detection_def waitForAnimations_finally_def Let_def)
next
  case False
  then have "promises s \<noteq> []" by (auto simp: set_delete_def)
  with assms have "detectionOn (sent s)" by (simp add: waiting_implies_detection_def)
  with False show ?thesis
    by (simp add: waiting_implies_detection_def waitForAnimations_finally_def Let_def)
qed

lemma runAnim_keeps:
  "waiting_implies_detection s \<Longrightarrow> waiting_implies_detection (runAnim s steps)"
proof (induction steps arbitrary: s)
  case Nil
  then show ?case by simp
next
  case (Cons st steps)
  show ?case
  proof (cases st)
    case Begin
    then show ?thesis using Cons.IH[OF begin_keeps] by simp
  next
    case (Finish p outcome)
    then show ?thesis using Cons.IH[OF finally_keeps[OF Cons.prems]] by simp
  qed
qed

text \<open>
  Claim C9. The \<open>finally\<close> callback of a \<open>waitForAnimations\<close> call, however the call's
  promise settled, removes that call's promise and no other from the set of promises in
  flight, and sends \<open>disablePixelChangeDetection\<close> exactly when the set is then empty. So
  a call that finishes while another is in flight sends nothing. Over any schedule of
  calls beginning and finishing, as long as a call is in flight the last toggle sent is
  \<open>enablePixelChangeDetection\<close>.
\<close>

theorem detection_disabled_by_last_waiter:
  "promises (snd (waitForAnimations_finally s p outcome)) = removeAll p (promises s)
   \<and> fst (waitForAnimations_finally s p outcome) = outcome
   \<and> sent (snd (waitForAnimations_finally s p outcome))
       = sent s @ (if removeAll p (promises s) = [] then [''disablePixelChangeDetection'']
                   else [])
   \<and> ((\<exists>q \<in> set (promises s). q \<noteq> p) \<longrightarrow>
        sent (snd (waitForAnimations_finally s p outcome)) = sent s)
   \<and> (promises (runAnim initialAnim steps) \<noteq> [] \<longrightarrow>
        detectionOn (sent (runAnim initialAnim steps)))"
proof (intro conjI impI)
  show "promises (snd (waitForAnimations_finally s p outcome)) = removeAll p (promises s)"
    by (simp add: waitForAnimations_finally_def Let_def set_delete_def)
  show "fst (waitForAnimations_finally s p outcome) = outcome"
    by (simp add: waitForAnimations_finally_def Let_def)
  show "sent (snd (waitForAnimations_finally s p outcome))
       = sent s @ (if removeAll p (promises s) = [] then [''disablePixelChangeDetection'']
                   else [])"
    by (simp add: waitForAnimations_finally_def Let_def set_delete_def)
next
  assume "\<exists>q \<in> set (promises s). q \<noteq> p"
  then have "removeAll p (promises s) \<noteq> []" by (auto simp: filter_empty_conv removeAll_filter_not_eq)
  then show "sent (snd (waitForAnimations_finally s p outcome)) = sent s"
    by (simp add: waitForAnimations_finally_def Let_def set_delete_def)
next
  assume ne: "promises (runAnim initialAnim steps) \<noteq> []"
  have "waiting_implies_detection initialAnim"
    by (simp add: waiting_implies_detection_def initialAnim_def)
  then have "waiting_implies_detection (runAnim initialAnim steps)"
    by (rule runAnim_keeps)
  with ne show "detectionOn (sent (runAnim initialAnim steps))"
    by (simp add: waiting_implies_detection_def)
qed

lemmas anim_eval = waitForAnimations_begin_def waitForAnimations_finally_def initialAnim_def
  set_add_def set_delete_def removeListener_def Let_def detectionOn_def

theorem detection_disabled_by_last_waiter_witness:
  "promises (runAnim initialAnim [Begin, Begin]) = [0, 1]
   \<and> (\<exists>q \<in> set (promises (runAnim initialAnim [Begin, Begin])). q \<noteq> 0)
   \<and> sent (snd (waitForAnimations_finally (runAnim initialAnim [Begin, Begin]) 0 AnimResolved))
       = [''enablePixelChangeDetection'', ''enablePixelChangeDetection'']
   \<and> promises (runAnim initialAnim [Begin, Begin, Finish 0 AnimResolved]) \<noteq> []
   \<and> detectionOn (sent (runAnim initialAnim [Begin, Begin, Finish 0 AnimResolved]))
   \<and> sent (runAnim initialAnim [Begin, Begin, Finish 0 AnimResolved, Finish 1 AnimTimedOut])
       = [''enablePixelChangeDetection'', ''enablePixelChangeDetection'',
          ''disablePixelChangeDetection'']"
proof -
  have two: "runAnim initialAnim [Begin, Begin]
      = \<lparr>promises = [0, 1], pixelListeners = [0, 1],
         sent = [''enablePixelChangeDetection'', ''enablePixelChangeDetection''],
         nextPromise = 2\<rparr>"
    by (simp add: anim_eval)
  have three: "promises (runAnim initialAnim [Begin, Begin, Finish 0 AnimResolved]) \<noteq> []"
    by (simp add: anim_eval)
  have four: "sent (runAnim initialAnim [Begin, Begin, Finish 0 AnimResolved, Finish 1 AnimTimedOut])
       = [''enablePixelChangeDetection'', ''enablePixelChangeDetection'',
          ''disablePixelChangeDetection'']"
    by (simp add: anim_eval)
  from detection_disabled_by_last_waiter[of "runAnim initialAnim [Begin, Begin]" 0 AnimResolved
      "[Begin, Begin, Finish 0 AnimResolved]"] two three four
  show ?thesis by (simp add: anim_eval)
qed

section \<open>Further properties of the coordinate mapper\<close>

text \<open>
  When the device pixel ratio is absent, 0 or 1 and neither side of the screen is 1, a
  tap at a position given by two numbers in \<open>[0, 1]\<close> goes out as the position times the
  size less one and comes back as the same position, on both platforms (over the reals).
\<close>

theorem position_round_trip_without_pixel_ratio:
  assumes "orOne (devicePixelRatio sc) = 1" and "width sc \<noteq> 1" and "height sc \<noteq> 1"
    and "0 \<le> x" "x \<le> 1" "0 \<le> y" "y \<le> 1"
  shows "\<exists>out. Internal_mapAction pf sc mapEl (tapAt (PNum (Num x), PNum (Num y))) = Inr out
           \<and> coordinates out = Some (Num (x * (width sc - 1)), Num (y * (height sc - 1)))
           \<and> position (Public_mapAction pf sc mapEl' boundsOf out)
               = Some (PNum (Num x), PNum (Num y))"
  using assms
  by (cases pf)
     (simp_all add: Internal_mapAction_def Public_mapAction_def mapPosition_def
        parsePositionValue_def isValidNumber_def isPositionWithinBounds_def getCoordinates_def
        outBounds_def dipToPixel_def pixelToDip_def getPosition_def js_gt_def js_sub_def
        mapLocalPosition_def checkDuration_def tapAt_def)

theorem position_round_trip_without_pixel_ratio_witness:
  "orOne (devicePixelRatio \<lparr>width = 101, height = 201, devicePixelRatio = None\<rparr>) = 1
   \<and> width \<lparr>width = 101, height = 201, devicePixelRatio = None\<rparr> \<noteq> 1
   \<and> height \<lparr>width = 101, height = 201, devicePixelRatio = None\<rparr> \<noteq> 1
   \<and> (0 :: real) \<le> 1 / 4 \<and> (1 / 4 :: real) \<le> 1
   \<and> (\<exists>out. Internal_mapAction Android \<lparr>width = 101, height = 201, devicePixelRatio = None\<rparr>
                 (\<lambda>e :: unit. e) (tapAt (PNum (Num (1 / 4)), PNum (Num (1 / 4)))) = Inr out
           \<and> coordinates out = Some (Num 25, Num 50)
           \<and> position (Public_mapAction Android
                 \<lparr>width = 101, height = 201, devicePixelRatio = None\<rparr> (\<lambda>e. e) (\<lambda>e. None) out)
               = Some (PNum (Num (1 / 4)), PNum (Num (1 / 4))))"
  using position_round_trip_without_pixel_ratio
    [of "\<lparr>width = 101, height = 201, devicePixelRatio = None\<rparr>" "1 / 4" "1 / 4" Android
        "\<lambda>e :: unit. e" "\<lambda>e. e" "\<lambda>e. None"]
  by (simp add: orOne_def)

text \<open>
  The outbound mapper never clamps a position: when a parsed axis is \<open>NaN\<close> the action
  is rejected with an \<open>OperationalError\<close>, and when both are numbers and one lies outside
  \<open>[0, 1]\<close> it is rejected with a plain \<open>Error\<close>.
\<close>

theorem position_out_of_range_rejected:
  fixes a :: "'e action"
  assumes "position a = Some p"
    and "parsePositionValue (fst p) = (Inr x :: 'e error + jsnum)"
    and "parsePositionValue (snd p) = (Inr y :: 'e error + jsnum)"
    and "js_isNaN x \<or> js_isNaN y \<or> js_lt x (Num 0) \<or> js_gt x (Num 1)
         \<or> js_lt y (Num 0) \<or> js_gt y (Num 1)"
  shows "\<exists>e. Internal_mapAction pf sc mapEl a = Inl e
           \<and> cls e = (if js_isNaN x \<or> js_isNaN y then OperationalError else JsError)"
  using assms
  by (auto simp: Internal_mapAction_def mapPosition_def isValidNumber_def
      isPositionWithinBounds_def newError_def Let_def split: posval.splits)

theorem position_out_of_range_rejected_witness:
  "position (tapAt (PStr (units ''150%''), PNum (Num (1 / 2))) :: unit action)
     = Some (PStr (units ''150%''), PNum (Num (1 / 2)))
   \<and> parsePositionValue (PStr (units ''150%'')) = (Inr (Num (3 / 2)) :: unit error + jsnum)
   \<and> parsePositionValue (PNum (Num (1 / 2))) = (Inr (Num (1 / 2)) :: unit error + jsnum)
   \<and> js_gt (Num (3 / 2)) (Num 1)
   \<and> (\<exists>e. Internal_mapAction Ios \<lparr>width = 101, height = 201, devicePixelRatio = None\<rparr>
              (\<lambda>e :: unit. e) (tapAt (PStr (units ''150%''), PNum (Num (1 / 2)))) = Inl e
           \<and> cls e = JsError)"
proof -
  have p: "parsePositionValue (PStr (units ''150%'')) = (Inr (Num (3 / 2)) :: unit error + jsnum)"
    by (simp add: parsePositionValue_def parse_defs)
  have q: "parsePositionValue (PNum (Num (1 / 2))) = (Inr (Num (1 / 2)) :: unit error + jsnum)"
    by (simp add: parsePositionValue_def)
  have a: "position (tapAt (PStr (units ''150%''), PNum (Num (1 / 2))) :: unit action)
     = Some (PStr (units ''150%''), PNum (Num (1 / 2)))"
    by (simp add: tapAt_def)
  from position_out_of_range_rejected[of "tapAt (PStr (units ''150%''), PNum (Num (1 / 2)))"
      "(PStr (units ''150%''), PNum (Num (1 / 2)))" "Num (3 / 2)" "Num (1 / 2)" Ios
      "\<lparr>width = 101, height = 201, devicePixelRatio = None\<rparr>" "\<lambda>e :: unit. e"] a p q
  show ?thesis by (simp add: js_gt_def)
qed

end
